theory Spec2Isabelle
  imports Complex_Main
begin

section \<open>Numbers\<close>

text \<open>
  The simulator computes with numpy float64 scalars and arrays. A value is a finite
  number, one of the two infinities, or not-a-number. Finite values are idealised as
  reals: rounding, overflow and the sign of zero are not modelled. Arithmetic follows
  numpy: nothing raises, a division by zero yields an infinity or NaN, and every order
  comparison with NaN is false.
\<close>

datatype f64 = Fin real | PInf | NInf | NaN

fun isnan :: "f64 \<Rightarrow> bool" where
  "isnan NaN = True"
| "isnan _ = False"

fun isinf :: "f64 \<Rightarrow> bool" where
  "isinf PInf = True"
| "isinf NInf = True"
| "isinf _ = False"

definition inf_of_sign :: "real \<Rightarrow> f64" where
  "inf_of_sign s = (if 0 < s then PInf else if s < 0 then NInf else NaN)"

fun fneg :: "f64 \<Rightarrow> f64" where
  "fneg (Fin x) = Fin (- x)"
| "fneg PInf = NInf"
| "fneg NInf = PInf"
| "fneg NaN = NaN"

fun fadd :: "f64 \<Rightarrow> f64 \<Rightarrow> f64" where
  "fadd (Fin x) (Fin y) = Fin (x + y)"
| "fadd NaN _ = NaN"
| "fadd _ NaN = NaN"
| "fadd PInf NInf = NaN"
| "fadd NInf PInf = NaN"
| "fadd PInf _ = PInf"
| "fadd _ PInf = PInf"
| "fadd NInf _ = NInf"
| "fadd _ NInf = NInf"

definition fsub :: "f64 \<Rightarrow> f64 \<Rightarrow> f64" where
  "fsub a b = fadd a (fneg b)"

fun fmul :: "f64 \<Rightarrow> f64 \<Rightarrow> f64" where
  "fmul (Fin x) (Fin y) = Fin (x * y)"
| "fmul NaN _ = NaN"
| "fmul _ NaN = NaN"
| "fmul PInf (Fin y) = inf_of_sign y"
| "fmul (Fin x) PInf = inf_of_sign x"
| "fmul NInf (Fin y) = inf_of_sign (- y)"
| "fmul (Fin x) NInf = inf_of_sign (- x)"
| "fmul PInf PInf = PInf"
| "fmul NInf NInf = PInf"
| "fmul PInf NInf = NInf"
| "fmul NInf PInf = NInf"

fun fdiv :: "f64 \<Rightarrow> f64 \<Rightarrow> f64" where
  "fdiv (Fin x) (Fin y) = (if y = 0 then inf_of_sign x else Fin (x / y))"
| "fdiv NaN _ = NaN"
| "fdiv _ NaN = NaN"
| "fdiv (Fin x) _ = Fin 0"
| "fdiv PInf (Fin y) = (if 0 \<le> y then PInf else NInf)"
| "fdiv NInf (Fin y) = (if 0 \<le> y then NInf else PInf)"
| "fdiv _ _ = NaN"

fun flt :: "f64 \<Rightarrow> f64 \<Rightarrow> bool" where
  "flt (Fin x) (Fin y) = (x < y)"
| "flt NaN _ = False"
| "flt _ NaN = False"
| "flt _ NInf = False"
| "flt PInf _ = False"
| "flt _ _ = True"

definition fgt :: "f64 \<Rightarrow> f64 \<Rightarrow> bool" where
  "fgt a b = flt b a"

fun fle :: "f64 \<Rightarrow> f64 \<Rightarrow> bool" where
  "fle (Fin x) (Fin y) = (x \<le> y)"
| "fle NaN _ = False"
| "fle _ NaN = False"
| "fle NInf _ = True"
| "fle _ PInf = True"
| "fle _ _ = False"

definition fge :: "f64 \<Rightarrow> f64 \<Rightarrow> bool" where
  "fge a b = fle b a"

fun fceil :: "f64 \<Rightarrow> f64" where
  "fceil (Fin x) = Fin (of_int \<lceil>x\<rceil>)"
| "fceil v = v"

definition of_py_int :: "int \<Rightarrow> f64" where
  "of_py_int i = Fin (of_int i)"

section \<open>Errors\<close>

text \<open>
  Every raise of the source is a value. The source raises plain \<open>Exception\<close> and
  \<open>AssertionError\<close> objects; the constructors below carry the names the specification
  gives to these failures, and the names of the Python built-in exceptions for the
  failures of indexing, allocation and conversion.
  \<^item> \<open>ConfigurationError\<close>: an assertion of the constructor failed.
  \<^item> \<open>InvalidStateError t v th\<close>: the assertion at the end of \<open>reset\<close> failed; the
    message is built from the step \<open>t\<close>, the reset voltage and the reset threshold.
  \<^item> \<open>InvalidValueError\<close>: the numeric guard of \<open>run_until_spike\<close> fired. The source
    raises an \<open>Exception\<close> whose message is a constant string; the step and the slices
    of the traces go to the error log only and are no part of what is raised.
  \<^item> \<open>IncompleteTraceError\<close>, \<open>SpikeCountMismatchError\<close>: the two checks at the end
    of \<open>run_wrt_target_spike_train\<close>.
  \<^item> \<open>TargetFlagError\<close>: the assertion on \<open>target_spike_exists\<close> failed.
\<close>

datatype error =
    ConfigurationError
  | InvalidStateError int f64 f64
  | InvalidValueError
  | IncompleteTraceError
  | SpikeCountMismatchError
  | TargetFlagError
  | IndexError
  | ValueError
  | OverflowError

text \<open>Sequencing: the first failure is the result.\<close>

definition bind_err :: "error + 'a \<Rightarrow> ('a \<Rightarrow> error + 'b) \<Rightarrow> error + 'b" where
  "bind_err m f = (case m of Inl e \<Rightarrow> Inl e | Inr x \<Rightarrow> f x)"

section \<open>Constructing a neuron\<close>

text \<open>
  A value of the coefficient dictionary is a number or a vector. A method configuration
  is a dictionary read at its keys \<open>name\<close> and \<open>params\<close>; either may be missing.
\<close>

datatype coeff = Scalar f64 | Vector "f64 list"

record 'p method_config =
  cfg_name :: "string option"
  cfg_params :: "'p option"

text \<open>
  Modelled from the spec: the class \<open>GLIFNeuronMethod\<close> and the dictionary
  \<open>METHOD_LIBRARY\<close> of the module \<open>neuron_methods\<close> are not part of the sources at
  hand. A bound method is the triple of a name, the method found in the library and its
  parameters; the library, from method types to tables from names to methods, is a
  parameter of the constructor.
\<close>

record ('m, 'p) GLIFNeuronMethod =
  method_name :: string
  library_method :: 'm
  method_params :: 'p

definition configure_method :: "string \<Rightarrow> 'm \<Rightarrow> 'p \<Rightarrow> ('m, 'p) GLIFNeuronMethod" where
  "configure_method name m ps = \<lparr>method_name = name, library_method = m, method_params = ps\<rparr>"

definition configure_library_method ::
  "(string \<rightharpoonup> (string \<rightharpoonup> 'm)) \<Rightarrow> string \<Rightarrow> 'p method_config
     \<Rightarrow> error + ('m, 'p) GLIFNeuronMethod" where
  "configure_library_method METHOD_LIBRARY method_type params =
     (case METHOD_LIBRARY method_type of
        None \<Rightarrow> Inl ConfigurationError
      | Some method_options \<Rightarrow>
          (case cfg_name params of
             None \<Rightarrow> Inl ConfigurationError
           | Some name \<Rightarrow>
               (case cfg_params params of
                  None \<Rightarrow> Inl ConfigurationError
                | Some ps \<Rightarrow>
                    (case method_options name of
                       None \<Rightarrow> Inl ConfigurationError
                     | Some m \<Rightarrow> Inr (configure_method name m ps)))))"

text \<open>The fields of the object, \<open>self.El\<close> and so on.\<close>

record ('m, 'p) GLIFNeuron =
  self_type :: string
  self_El :: f64
  self_dt :: f64
  self_tau :: "f64 list"
  self_R_input :: f64
  self_C :: f64
  self_asc_vector :: "f64 list"
  self_spike_cut_length :: int
  self_th_inf :: f64
  self_k :: "f64 list"
  self_G :: f64
  self_coeffs :: "string \<rightharpoonup> coeff"
  self_AScurrent_dynamics_method :: "('m, 'p) GLIFNeuronMethod"
  self_voltage_dynamics_method :: "('m, 'p) GLIFNeuronMethod"
  self_threshold_dynamics_method :: "('m, 'p) GLIFNeuronMethod"
  self_AScurrent_reset_method :: "('m, 'p) GLIFNeuronMethod"
  self_voltage_reset_method :: "('m, 'p) GLIFNeuronMethod"
  self_threshold_reset_method :: "('m, 'p) GLIFNeuronMethod"

definition default_coeffs :: "nat \<Rightarrow> (string \<rightharpoonup> coeff)" where
  "default_coeffs n =
     [''th_inf'' \<mapsto> Scalar (Fin 1), ''C'' \<mapsto> Scalar (Fin 1), ''G'' \<mapsto> Scalar (Fin 1),
      ''b'' \<mapsto> Scalar (Fin 1), ''a'' \<mapsto> Scalar (Fin 1),
      ''asc_vector'' \<mapsto> Vector (replicate n (Fin 1))]"

text \<open>
  \<open>__init__\<close>. The first statement that can fail is the assertion that \<open>tau\<close> and
  \<open>asc_vector\<close> have one length (building its message raises in turn, as the message
  formats the two vectors with \<open>%d\<close>; construction ends at this statement either way).
  The six methods are configured after it, in the order of the source.
\<close>

definition GLIFNeuron_init ::
  "(string \<rightharpoonup> (string \<rightharpoonup> 'm)) \<Rightarrow> f64 \<Rightarrow> f64 \<Rightarrow> f64 list \<Rightarrow> f64 \<Rightarrow> f64 \<Rightarrow> f64 list \<Rightarrow> int \<Rightarrow> f64
     \<Rightarrow> (string \<rightharpoonup> coeff)
     \<Rightarrow> 'p method_config \<Rightarrow> 'p method_config \<Rightarrow> 'p method_config
     \<Rightarrow> 'p method_config \<Rightarrow> 'p method_config \<Rightarrow> 'p method_config
     \<Rightarrow> error + ('m, 'p) GLIFNeuron" where
  "GLIFNeuron_init METHOD_LIBRARY El dt tau R_input C asc_vector spike_cut_length th_inf coeffs
       AScurrent_dynamics_method voltage_dynamics_method threshold_dynamics_method
       AScurrent_reset_method voltage_reset_method threshold_reset_method =
     (if length tau \<noteq> length asc_vector then Inl ConfigurationError
      else
        bind_err (configure_library_method METHOD_LIBRARY ''AScurrent_dynamics_method''
                    AScurrent_dynamics_method) (\<lambda>m1.
        bind_err (configure_library_method METHOD_LIBRARY ''voltage_dynamics_method''
                    voltage_dynamics_method) (\<lambda>m2.
        bind_err (configure_library_method METHOD_LIBRARY ''threshold_dynamics_method''
                    threshold_dynamics_method) (\<lambda>m3.
        bind_err (configure_library_method METHOD_LIBRARY ''AScurrent_reset_method''
                    AScurrent_reset_method) (\<lambda>m4.
        bind_err (configure_library_method METHOD_LIBRARY ''voltage_reset_method''
                    voltage_reset_method) (\<lambda>m5.
        bind_err (configure_library_method METHOD_LIBRARY ''threshold_reset_method''
                    threshold_reset_method) (\<lambda>m6.
          Inr \<lparr>self_type = ''GLIF'', self_El = El, self_dt = dt, self_tau = tau,
               self_R_input = R_input, self_C = C, self_asc_vector = asc_vector,
               self_spike_cut_length = spike_cut_length, self_th_inf = th_inf,
               self_k = map (fdiv (Fin 1)) tau, self_G = fdiv (Fin 1) R_input,
               self_coeffs = default_coeffs (length tau) ++ coeffs,
               self_AScurrent_dynamics_method = m1, self_voltage_dynamics_method = m2,
               self_threshold_dynamics_method = m3, self_AScurrent_reset_method = m4,
               self_voltage_reset_method = m5, self_threshold_reset_method = m6\<rparr>)))))))"

section \<open>The neuron as the run loops see it\<close>

text \<open>
  The run loops read \<open>self.dt\<close> and \<open>self.spike_cut_length\<close> and call the six
  configured methods. What a call computes is decided by the module \<open>neuron_methods\<close>,
  which is not part of the sources at hand, so the six callables are parameters of the
  model: each field holds what calling the configured method on this neuron computes (the
  argument \<open>self\<close> of the call is the neuron itself, so it is not repeated).
\<close>

record neuron =
  dt :: f64
  spike_cut_length :: int
  AScurrent_dynamics_method :: "f64 list \<Rightarrow> int \<Rightarrow> int list \<Rightarrow> f64 list"
  voltage_dynamics_method :: "f64 \<Rightarrow> f64 list \<Rightarrow> f64 \<Rightarrow> f64"
  threshold_dynamics_method :: "f64 \<Rightarrow> f64 \<Rightarrow> f64"
  AScurrent_reset_method :: "f64 list \<Rightarrow> int \<Rightarrow> f64 list"
  voltage_reset_method :: "f64 \<Rightarrow> f64"
  threshold_reset_method :: "f64 \<Rightarrow> f64 \<Rightarrow> f64"

definition dynamics ::
  "neuron \<Rightarrow> f64 \<Rightarrow> f64 \<Rightarrow> f64 list \<Rightarrow> f64 \<Rightarrow> int \<Rightarrow> int list \<Rightarrow> f64 \<times> f64 \<times> f64 list" where
  "dynamics self voltage_t0 threshold_t0 AScurrents_t0 inj_current time_step spike_time_steps =
     (let AScurrents_t1 = AScurrent_dynamics_method self AScurrents_t0 time_step spike_time_steps;
          voltage_t1 = voltage_dynamics_method self voltage_t0 AScurrents_t0 inj_current;
          threshold_t1 = threshold_dynamics_method self threshold_t0 voltage_t0
      in (voltage_t1, threshold_t1, AScurrents_t1))"

definition reset ::
  "neuron \<Rightarrow> f64 \<Rightarrow> f64 \<Rightarrow> f64 list \<Rightarrow> int \<Rightarrow> error + (f64 \<times> f64 \<times> f64 list)" where
  "reset self voltage_t0 threshold_t0 AScurrents_t0 t =
     (let AScurrents_t1 = AScurrent_reset_method self AScurrents_t0 t;
          voltage_t1 = voltage_reset_method self voltage_t0;
          threshold_t1 = threshold_reset_method self threshold_t0 voltage_t1
      in if flt voltage_t1 threshold_t1
         then Inr (voltage_t1, threshold_t1, AScurrents_t1)
         else Inl (InvalidStateError t voltage_t1 threshold_t1))"

section \<open>numpy indexing\<close>

text \<open>
  An index below zero counts from the end; an index outside the array raises. The
  bounds of a slice are clipped to the array instead, so a slice never raises and may be
  shorter than written.
\<close>

definition np_get :: "'a list \<Rightarrow> int \<Rightarrow> error + 'a" where
  "np_get xs i =
     (let j = (if i < 0 then i + int (length xs) else i)
      in if j < 0 \<or> int (length xs) \<le> j then Inl IndexError else Inr (xs ! nat j))"

definition slice_bound :: "nat \<Rightarrow> int \<Rightarrow> nat" where
  "slice_bound len i = (if i < 0 then nat (i + int len) else min len (nat i))"

definition np_slice :: "'a list \<Rightarrow> int \<Rightarrow> int \<Rightarrow> 'a list" where
  "np_slice xs a b =
     (let lo = slice_bound (length xs) a; hi = slice_bound (length xs) b
      in take (hi - lo) (drop lo xs))"

text \<open>\<open>xs[a:b] = v\<close> for a scalar (or a whole row) \<open>v\<close>.\<close>

definition fill_slice :: "'a list \<Rightarrow> int \<Rightarrow> int \<Rightarrow> 'a \<Rightarrow> 'a list" where
  "fill_slice xs a b v =
     (let lo = slice_bound (length xs) a; hi = slice_bound (length xs) b
      in map (\<lambda>i. if lo \<le> i \<and> i < hi then v else xs ! i) [0..<length xs])"

text \<open>
  \<open>xs[a:b] = ys\<close> for an array \<open>ys\<close>: the shapes must agree, except that an array of
  one element is broadcast over the slice.
\<close>

definition assign_slice :: "'a list \<Rightarrow> int \<Rightarrow> int \<Rightarrow> 'a list \<Rightarrow> error + 'a list" where
  "assign_slice xs a b ys =
     (let lo = slice_bound (length xs) a; hi = slice_bound (length xs) b
      in if length ys = hi - lo
         then Inr (map (\<lambda>i. if lo \<le> i \<and> i < hi then ys ! (i - lo) else xs ! i) [0..<length xs])
         else if length ys = 1 then Inr (fill_slice xs a b (hd ys))
         else Inl ValueError)"

text \<open>
  \<open>M[i,:] = row\<close> on a matrix of width \<open>w\<close>, for \<open>i\<close> inside the matrix: the row
  must have the width of the matrix, or one element, which is broadcast.
\<close>

definition set_row :: "f64 list list \<Rightarrow> nat \<Rightarrow> nat \<Rightarrow> f64 list \<Rightarrow> error + f64 list list" where
  "set_row M w i row =
     (if length row = w then Inr (M[i := row])
      else if length row = 1 then Inr (M[i := replicate w (hd row)])
      else Inl ValueError)"

section \<open>The free-run loop\<close>

text \<open>
  The local variables of \<open>run\<close>; \<open>num_AScurrents\<close> is the width of the matrix. The
  types \<open>'a\<close> and \<open>'b\<close> are those of the after-spike-current vector and of the list of
  spike steps: here the arrays themselves.
\<close>

record ('a, 'b) run_state =
  time_step :: nat
  voltage_t0 :: f64
  threshold_t0 :: f64
  AScurrents_t0 :: 'a
  num_AScurrents :: nat
  voltage_out :: "f64 list"
  threshold_out :: "f64 list"
  AScurrents_out :: "f64 list list"
  spike_time_steps :: 'b
  spike_times :: "f64 list"
  interpolated_spike_times :: "f64 list"
  interpolated_spike_voltages :: "f64 list"
  interpolated_spike_thresholds :: "f64 list"

text \<open>
  One pass through the body of the \<open>while\<close> loop, entered with
  \<open>time_step < len(stim)\<close>.
\<close>

type_synonym run_vars = "(f64 list, int list) run_state"

definition run_body :: "neuron \<Rightarrow> f64 list \<Rightarrow> run_vars \<Rightarrow> error + run_vars" where
  "run_body self stim s =
     (let t = time_step s; v0 = voltage_t0 s; th0 = threshold_t0 s;
          (v1, th1, asc1) =
             dynamics self v0 th0 (AScurrents_t0 s) (stim ! t) (int t) (spike_time_steps s)
      in if fgt v1 th1 then
           (let ist = fmul (dt self)
                        (fadd (of_py_int (int t))
                           (fdiv (fsub th0 v0) (fadd (fsub (fsub v1 th1) v0) th0)));
                frac = fsub ist (fmul (of_py_int (int t - 1)) (dt self));
                isv = fadd v0 (fdiv (fmul (fsub v1 v0) frac) (dt self));
                isth = fadd th0 (fdiv (fmul (fsub th1 th0) frac) (dt self));
                s1 = s\<lparr>spike_time_steps := spike_time_steps s @ [int t],
                       spike_times := spike_times s @ [fmul (of_py_int (int t)) (dt self)],
                       interpolated_spike_times := interpolated_spike_times s @ [ist],
                       interpolated_spike_voltages := interpolated_spike_voltages s @ [isv],
                       interpolated_spike_thresholds := interpolated_spike_thresholds s @ [isth]\<rparr>
            in case reset self v1 th1 asc1 (int t) of
                 Inl e \<Rightarrow> Inl e
               | Inr (rv, rth, rasc) \<Rightarrow>
                   (let s2 = s1\<lparr>voltage_t0 := rv, threshold_t0 := rth, AScurrents_t0 := rasc\<rparr>;
                        n = spike_cut_length self
                    in if 0 < n then
                         Inr (s2\<lparr>voltage_out := fill_slice (voltage_out s2) (int t) (int t + n) NaN,
                                 threshold_out := fill_slice (threshold_out s2) (int t) (int t + n) NaN,
                                 AScurrents_out := fill_slice (AScurrents_out s2) (int t) (int t + n)
                                                     (replicate (num_AScurrents s2) NaN),
                                 time_step := t + nat n\<rparr>)
                       else
                         (case set_row (AScurrents_out s2) (num_AScurrents s2) t rasc of
                            Inl e \<Rightarrow> Inl e
                          | Inr M \<Rightarrow>
                              Inr (s2\<lparr>voltage_out := (voltage_out s2)[t := rv],
                                      threshold_out := (threshold_out s2)[t := rth],
                                      AScurrents_out := M,
                                      time_step := t + 1\<rparr>))))
         else
           (case set_row (AScurrents_out s) (num_AScurrents s) t asc1 of
              Inl e \<Rightarrow> Inl e
            | Inr M \<Rightarrow>
                Inr (s\<lparr>voltage_out := (voltage_out s)[t := v1],
                       threshold_out := (threshold_out s)[t := th1],
                       AScurrents_out := M,
                       voltage_t0 := v1, threshold_t0 := th1, AScurrents_t0 := asc1,
                       time_step := t + 1\<rparr>)))"

text \<open>
  The \<open>while\<close> loop. A loop that ran forever would have the value \<open>None\<close>.
\<close>

partial_function (option) run_loop ::
  "neuron \<Rightarrow> f64 list \<Rightarrow> run_vars \<Rightarrow> (error + run_vars) option" where
  "run_loop self stim s =
     (if time_step s < length stim
      then (case run_body self stim s of
              Inl e \<Rightarrow> Some (Inl e)
            | Inr s' \<Rightarrow> run_loop self stim s')
      else Some (Inr s))"

text \<open>Whether the step taken from \<open>s\<close> crosses the threshold, so that a spike is detected.\<close>

definition crossing :: "neuron \<Rightarrow> f64 list \<Rightarrow> run_vars \<Rightarrow> bool" where
  "crossing self stim s =
     (let (v1, th1, asc1) =
            dynamics self (voltage_t0 s) (threshold_t0 s) (AScurrents_t0 s)
              (stim ! time_step s) (int (time_step s)) (spike_time_steps s)
      in fgt v1 th1)"

text \<open>The three traces have one entry for each sample of the stimulus.\<close>

definition traces_sized :: "f64 list \<Rightarrow> ('a, 'b) run_state \<Rightarrow> bool" where
  "traces_sized stim s =
     (length (voltage_out s) = length stim \<and> length (threshold_out s) = length stim
      \<and> length (AScurrents_out s) = length stim)"

definition run_init :: "f64 \<Rightarrow> f64 \<Rightarrow> f64 list \<Rightarrow> f64 list \<Rightarrow> run_vars" where
  "run_init v0 th0 asc0 stim =
     \<lparr>time_step = 0, voltage_t0 = v0, threshold_t0 = th0, AScurrents_t0 = asc0,
      num_AScurrents = length asc0,
      voltage_out = replicate (length stim) NaN,
      threshold_out = replicate (length stim) NaN,
      AScurrents_out = replicate (length stim) (replicate (length asc0) NaN),
      spike_time_steps = [], spike_times = [], interpolated_spike_times = [],
      interpolated_spike_voltages = [], interpolated_spike_thresholds = []\<rparr>"

text \<open>
  \<open>run\<close>: the final variables hold the eight returned arrays (\<open>voltage_out\<close>,
  \<open>threshold_out\<close>, \<open>AScurrents_out\<close>, \<open>spike_times\<close>, \<open>interpolated_spike_times\<close>,
  \<open>spike_time_steps\<close>, \<open>interpolated_spike_voltages\<close>,
  \<open>interpolated_spike_thresholds\<close>).
\<close>

definition run ::
  "neuron \<Rightarrow> f64 \<Rightarrow> f64 \<Rightarrow> f64 list \<Rightarrow> f64 list \<Rightarrow> (error + run_vars) option" where
  "run self v0 th0 asc0 stim = run_loop self stim (run_init v0 th0 asc0 stim)"

section \<open>Running one segment: \<open>run_until_spike\<close>\<close>

text \<open>
  The variables the first \<open>for\<close> loop of \<open>run_until_spike\<close> updates; \<open>'a\<close> is the
  type of the after-spike-current vector.
\<close>

record 'a seg_state =
  seg_voltage_t0 :: f64
  seg_threshold_t0 :: f64
  seg_AScurrents_t0 :: 'a
  seg_voltage_out :: "f64 list"
  seg_threshold_out :: "f64 list"
  seg_AScurrent_matrix :: "f64 list list"

definition invalid_value :: "f64 \<Rightarrow> bool" where
  "invalid_value x = (isnan x \<or> isinf x)"

text \<open>
  One pass of the first loop at \<open>time_step = k\<close>: record the current state, check it,
  read the stimulus and advance. \<open>w\<close> is the width of the matrix.
\<close>

definition seg_step ::
  "neuron \<Rightarrow> f64 list \<Rightarrow> int \<Rightarrow> int list \<Rightarrow> nat \<Rightarrow> nat \<Rightarrow> f64 list seg_state
     \<Rightarrow> error + f64 list seg_state" where
  "seg_step self stim start_index sts w k s =
     (let vo = (seg_voltage_out s)[k := seg_voltage_t0 s];
          tho = (seg_threshold_out s)[k := seg_threshold_t0 s]
      in bind_err (set_row (seg_AScurrent_matrix s) w k (seg_AScurrents_t0 s)) (\<lambda>M.
           if invalid_value (seg_voltage_t0 s) \<or> invalid_value (seg_threshold_t0 s)
              \<or> list_ex isnan (seg_AScurrents_t0 s) \<or> list_ex isinf (seg_AScurrents_t0 s)
           then Inl InvalidValueError
           else bind_err (np_get stim (int k + start_index)) (\<lambda>cur.
             (let (v1, th1, asc1) =
                    dynamics self (seg_voltage_t0 s) (seg_threshold_t0 s) (seg_AScurrents_t0 s)
                      cur (int k + start_index) sts
              in Inr \<lparr>seg_voltage_t0 = v1, seg_threshold_t0 = th1, seg_AScurrents_t0 = asc1,
                      seg_voltage_out = vo, seg_threshold_out = tho,
                      seg_AScurrent_matrix = M\<rparr>))))"

fun seg_loop ::
  "neuron \<Rightarrow> f64 list \<Rightarrow> int \<Rightarrow> int list \<Rightarrow> nat \<Rightarrow> nat list \<Rightarrow> f64 list seg_state
     \<Rightarrow> error + f64 list seg_state" where
  "seg_loop self stim start_index sts w [] s = Inr s"
| "seg_loop self stim start_index sts w (k # ks) s =
     (case seg_step self stim start_index sts w k s of
        Inl e \<Rightarrow> Inl e
      | Inr s' \<Rightarrow> seg_loop self stim start_index sts w ks s')"

text \<open>
  The second loop: the first recorded step whose voltage is above its threshold.
\<close>

definition find_crossing :: "f64 list \<Rightarrow> f64 list \<Rightarrow> nat \<Rightarrow> nat option" where
  "find_crossing vo tho n = find (\<lambda>t. fgt (vo ! t) (tho ! t)) [0..<n]"

text \<open>
  The index \<open>time_step - 1\<close> into an array of \<open>n\<close> elements, \<open>time_step < n\<close>: at
  \<open>time_step = 0\<close> it is \<open>-1\<close>, the last element.
\<close>

definition prev_index :: "nat \<Rightarrow> nat \<Rightarrow> nat" where
  "prev_index n t = (if t = 0 then n - 1 else t - 1)"

text \<open>
  The spike time interpolated between the samples before and at step \<open>t\<close>:
  \<open>dt*((t-1) + (th_p - v_p)/(v_c - th_c - v_p + th_p))\<close>.
\<close>

definition interpolate_crossing :: "f64 \<Rightarrow> int \<Rightarrow> f64 \<Rightarrow> f64 \<Rightarrow> f64 \<Rightarrow> f64 \<Rightarrow> f64" where
  "interpolate_crossing d t v_p th_p v_c th_c =
     fmul d (fadd (of_py_int (t - 1))
                  (fdiv (fsub th_p v_p) (fadd (fsub (fsub v_c th_c) v_p) th_p)))"

text \<open>
  The variables before the first loop: the caller's state (the after-spike currents
  are a copy of the caller's array) and the preallocated traces of \<open>n\<close> steps.
\<close>

definition seg_init :: "f64 \<Rightarrow> f64 \<Rightarrow> f64 list \<Rightarrow> nat \<Rightarrow> f64 list seg_state" where
  "seg_init v0 th0 asc0 n =
     \<lparr>seg_voltage_t0 = v0, seg_threshold_t0 = th0, seg_AScurrents_t0 = asc0,
      seg_voltage_out = replicate n NaN, seg_threshold_out = replicate n NaN,
      seg_AScurrent_matrix = replicate n (replicate (length asc0) NaN)\<rparr>"

text \<open>
  The thirteen values \<open>run_until_spike\<close> returns, in order. The type \<open>'a\<close> is that of
  the after-spike-current vector.
\<close>

record 'a segment =
  res_voltage_out :: "f64 list"
  res_threshold_out :: "f64 list"
  res_AScurrent_matrix :: "f64 list list"
  grid_spike_time :: f64
  interpolated_spike_time :: f64
  yaySpike :: bool
  res_voltage_t0 :: f64
  res_threshold_t0 :: f64
  res_AScurrents_t0 :: 'a
  res_voltage_t1 :: f64
  res_threshold_t1 :: f64
  v_ofModelAtInterpolatedBioSpike :: f64
  thresh_ofModelAtInterpolatedBioSpike :: f64

text \<open>
  After the first loop: the scan for the first crossing, and the spike at the boundary
  when the last voltage is above the last recorded threshold and the scan found nothing.
  The result is the value the variable \<open>time_step\<close> is left with, and the grid and
  interpolated spike times if there are any. \<open>v1\<close> and \<open>th1\<close> are the voltage and
  threshold after the last step, \<open>n \<ge> 1\<close> the number of steps.
\<close>

definition scan_segment ::
  "f64 \<Rightarrow> nat \<Rightarrow> f64 list \<Rightarrow> f64 list \<Rightarrow> f64 \<Rightarrow> f64 \<Rightarrow> nat \<times> (f64 \<times> f64) option" where
  "scan_segment d n vo tho v1 th1 =
     (let hit = find_crossing vo tho n;
          time_step = (case hit of Some t \<Rightarrow> t | None \<Rightarrow> n - 1);
          found = (case hit of
                     None \<Rightarrow> None
                   | Some t \<Rightarrow>
                       Some (fmul d (of_py_int (int t)),
                             interpolate_crossing d (int t)
                               (vo ! prev_index n t) (tho ! prev_index n t) (vo ! t) (tho ! t)));
          found2 = (if fgt v1 (last tho) \<and> found = None
                    then Some (fmul d (of_py_int (int n)),
                               interpolate_crossing d (int n) (vo ! (n - 1)) (tho ! (n - 1)) v1 th1)
                    else found)
      in (time_step, found2))"

text \<open>
  The end of the function, after the reset (if any) has given \<open>rv\<close>, \<open>rth\<close> and
  \<open>rasc\<close>: the extrapolated spike when none was found, the model's values at the
  target's time, and the returned tuple.
\<close>

definition finish_segment ::
  "f64 \<Rightarrow> nat \<Rightarrow> f64 list \<Rightarrow> f64 list \<Rightarrow> f64 list list \<Rightarrow> (f64 \<times> f64) option \<Rightarrow> f64 \<Rightarrow> f64
     \<Rightarrow> f64 \<Rightarrow> f64 \<Rightarrow> 'a \<Rightarrow> f64 \<Rightarrow> 'a segment" where
  "finish_segment d n vo tho M found2 v1 th1 rv rth rasc delta =
     (let (grid, interp) =
            (case found2 of
               Some p \<Rightarrow> p
             | None \<Rightarrow>
                 (let it = fdiv (fmul d (of_py_int (int n)))
                             (fsub (Fin 1) (fdiv (fsub th1 v1) (fsub rth rv)))
                  in (fmul (fceil (fdiv it d)) d, it)))
      in \<lparr>res_voltage_out = vo, res_threshold_out = tho, res_AScurrent_matrix = M,
          grid_spike_time = grid, interpolated_spike_time = interp, yaySpike = True,
          res_voltage_t0 = rv, res_threshold_t0 = rth, res_AScurrents_t0 = rasc,
          res_voltage_t1 = v1, res_threshold_t1 = th1,
          v_ofModelAtInterpolatedBioSpike =
            fadd (last vo) (fdiv (fmul delta (fsub v1 (last vo))) d),
          thresh_ofModelAtInterpolatedBioSpike =
            fadd (last tho) (fdiv (fmul delta (fsub th1 (last tho))) d)\<rparr>)"

definition run_until_spike ::
  "neuron \<Rightarrow> f64 \<Rightarrow> f64 \<Rightarrow> f64 list \<Rightarrow> f64 list \<Rightarrow> int \<Rightarrow> int \<Rightarrow> int list \<Rightarrow> bool \<Rightarrow> f64
     \<Rightarrow> error + f64 list segment" where
  "run_until_spike self v0 th0 asc0 stim start_index end_index sts target_spike_exists delta =
     (if end_index - start_index < 0 then Inl ValueError
      else
        (let n = nat (end_index - start_index); w = length asc0 in
         bind_err
           (seg_loop self stim start_index sts w [0..<n] (seg_init v0 th0 asc0 n))
           (\<lambda>s.
              if n = 0 then Inl IndexError
              else
                (let vo = seg_voltage_out s; tho = seg_threshold_out s;
                     v1 = seg_voltage_t0 s; th1 = seg_threshold_t0 s; asc1 = seg_AScurrents_t0 s;
                     (time_step, found2) = scan_segment (dt self) n vo tho v1 th1
                 in bind_err
                      (if target_spike_exists then reset self v1 th1 asc1 (int time_step)
                       else Inr (v1, th1, asc1))
                      (\<lambda>(rv, rth, rasc).
                         Inr (finish_segment (dt self) n vo tho (seg_AScurrent_matrix s) found2
                                v1 th1 rv rth rasc delta))))))"

section \<open>The target-aligned loop: \<open>run_wrt_target_spike_train\<close>\<close>

text \<open>\<open>int(x)\<close> truncates towards zero and raises on NaN and on an infinity.\<close>

fun py_int :: "f64 \<Rightarrow> error + int" where
  "py_int (Fin x) = Inr (if 0 \<le> x then \<lfloor>x\<rfloor> else \<lceil>x\<rceil>)"
| "py_int NaN = Inl ValueError"
| "py_int _ = Inl OverflowError"

text \<open>Elementwise subtraction of two one-dimensional arrays, with numpy's broadcasting.\<close>

definition np_sub :: "f64 list \<Rightarrow> f64 list \<Rightarrow> error + f64 list" where
  "np_sub xs ys =
     (if length xs = length ys then Inr (map2 fsub xs ys)
      else if length xs = 1 then Inr (map (fsub (hd xs)) ys)
      else if length ys = 1 then Inr (map (\<lambda>x. fsub x (hd ys)) xs)
      else Inl ValueError)"

text \<open>\<open>M[a:b,:] = R\<close> on a matrix of width \<open>w\<close>; the rows of \<open>R\<close> have one width.\<close>

definition assign_rows ::
  "f64 list list \<Rightarrow> nat \<Rightarrow> int \<Rightarrow> int \<Rightarrow> f64 list list \<Rightarrow> error + f64 list list" where
  "assign_rows M w a b R =
     (if list_all (\<lambda>row. length row = w) R then assign_slice M a b R
      else if list_all (\<lambda>row. length row = 1) R
      then assign_slice M a b (map (\<lambda>row. replicate w (hd row)) R)
      else Inl ValueError)"

text \<open>
  The variables of the loop over the target spikes, and with them the arrays the
  function returns. \<open>interpolatedVoltageArray\<close> is allocated and checked, never
  written and not returned.
\<close>

record 'a aligned_state =
  al_voltage_t0 :: f64
  al_threshold_t0 :: f64
  al_AScurrents_t0 :: 'a
  start_index :: int
  voltage :: "f64 list"
  threshold :: "f64 list"
  AScurrent_matrix :: "f64 list list"
  gridTimeArray :: "f64 list"
  interpolatedTimeArray :: "f64 list"
  interpolatedVoltageArray :: "f64 list"
  gridISIFromLastTargSpike_array :: "f64 list"
  interpolatedISIFromLastTargSpike_array :: "f64 list"
  voltageOfModelAtGridBioSpike_array :: "f64 list"
  threshOfModelAtGridBioSpike_array :: "f64 list"
  v_ofModelAtInterpolatedBioSpike_array :: "f64 list"
  thresh_ofModelAtInterpolatedBioSpike_array :: "f64 list"

text \<open>
  What one pass of the loop over the target spikes does with the result \<open>r\<close> of its
  segment: the traces of the segment go into \<open>[start_index:end_index]\<close>, the seven
  quantities into entry \<open>spike_num\<close> of the per-spike arrays, and the next segment starts
  from the state the segment returned, at \<open>end_index\<close>. \<open>d\<close> is \<open>self.dt\<close> and \<open>w\<close> the
  width of the matrix.
\<close>

definition record_segment ::
  "f64 \<Rightarrow> nat \<Rightarrow> nat \<Rightarrow> int \<Rightarrow> 'a segment \<Rightarrow> 'a aligned_state \<Rightarrow> error + 'a aligned_state" where
  "record_segment d w spike_num end_index r s =
     bind_err (assign_slice (voltage s) (start_index s) end_index (res_voltage_out r)) (\<lambda>vs.
     bind_err (assign_slice (threshold s) (start_index s) end_index (res_threshold_out r)) (\<lambda>ths.
     bind_err (assign_rows (AScurrent_matrix s) w (start_index s) end_index
                 (res_AScurrent_matrix r)) (\<lambda>M.
       Inr (s\<lparr>voltage := vs, threshold := ths, AScurrent_matrix := M,
              gridISIFromLastTargSpike_array :=
                (gridISIFromLastTargSpike_array s)[spike_num := grid_spike_time r],
              interpolatedISIFromLastTargSpike_array :=
                (interpolatedISIFromLastTargSpike_array s)
                  [spike_num := interpolated_spike_time r],
              interpolatedTimeArray :=
                (interpolatedTimeArray s)
                  [spike_num := fadd (interpolated_spike_time r)
                                  (fmul (of_py_int (start_index s)) d)],
              gridTimeArray :=
                (gridTimeArray s)
                  [spike_num := fadd (grid_spike_time r) (fmul (of_py_int (start_index s)) d)],
              voltageOfModelAtGridBioSpike_array :=
                (voltageOfModelAtGridBioSpike_array s)[spike_num := res_voltage_t1 r],
              threshOfModelAtGridBioSpike_array :=
                (threshOfModelAtGridBioSpike_array s)[spike_num := res_threshold_t1 r],
              v_ofModelAtInterpolatedBioSpike_array :=
                (v_ofModelAtInterpolatedBioSpike_array s)
                  [spike_num := v_ofModelAtInterpolatedBioSpike r],
              thresh_ofModelAtInterpolatedBioSpike_array :=
                (thresh_ofModelAtInterpolatedBioSpike_array s)
                  [spike_num := thresh_ofModelAtInterpolatedBioSpike r],
              al_voltage_t0 := res_voltage_t0 r,
              al_threshold_t0 := res_threshold_t0 r,
              al_AScurrents_t0 := res_AScurrents_t0 r,
              start_index := end_index\<rparr>))))"

text \<open>
  One pass of the loop over the target spikes, at \<open>spike_num\<close>; \<open>deltas\<close> is the array
  \<open>delta_t_wrt_grid_right_before_spike\<close>.
\<close>

definition aligned_step ::
  "neuron \<Rightarrow> f64 list \<Rightarrow> int list \<Rightarrow> bool \<Rightarrow> f64 list \<Rightarrow> nat \<Rightarrow> nat \<Rightarrow> f64 list aligned_state
     \<Rightarrow> error + f64 list aligned_state" where
  "aligned_step self stim spike_train_ids target_spike_exists deltas w spike_num s =
     (let end_index = spike_train_ids ! spike_num in
      bind_err (py_int (deltas ! spike_num)) (\<lambda>d.
      bind_err (run_until_spike self (al_voltage_t0 s) (al_threshold_t0 s) (al_AScurrents_t0 s)
                  stim (start_index s) end_index spike_train_ids target_spike_exists
                  (of_py_int d)) (\<lambda>r.
        record_segment (dt self) w spike_num end_index r s)))"

fun aligned_loop ::
  "neuron \<Rightarrow> f64 list \<Rightarrow> int list \<Rightarrow> bool \<Rightarrow> f64 list \<Rightarrow> nat \<Rightarrow> nat list \<Rightarrow> f64 list aligned_state
     \<Rightarrow> error + f64 list aligned_state" where
  "aligned_loop self stim ids tse deltas w [] s = Inr s"
| "aligned_loop self stim ids tse deltas w (k # ks) s =
     (case aligned_step self stim ids tse deltas w k s of
        Inl e \<Rightarrow> Inl e
      | Inr s' \<Rightarrow> aligned_loop self stim ids tse deltas w ks s')"

text \<open>
  The segment after the last target spike runs from \<open>spike_train_ids[-1]\<close> to the end of
  the stimulus. Of its result \<open>r\<close> only the three traces are kept; \<open>len_stim\<close> is
  \<open>len(stim)\<close>.
\<close>

definition record_trailing ::
  "nat \<Rightarrow> int \<Rightarrow> nat \<Rightarrow> 'b segment \<Rightarrow> 'a aligned_state \<Rightarrow> error + 'a aligned_state" where
  "record_trailing w last_id len_stim r s =
     bind_err (assign_slice (voltage s) last_id (int len_stim) (res_voltage_out r)) (\<lambda>vs.
     bind_err (assign_slice (threshold s) last_id (int len_stim) (res_threshold_out r)) (\<lambda>ths.
     bind_err (assign_rows (AScurrent_matrix s) w last_id (int len_stim)
                 (res_AScurrent_matrix r)) (\<lambda>M.
       Inr (s\<lparr>voltage := vs, threshold := ths, AScurrent_matrix := M\<rparr>))))"

definition trailing_segment ::
  "neuron \<Rightarrow> f64 list \<Rightarrow> int list \<Rightarrow> bool \<Rightarrow> nat \<Rightarrow> f64 list aligned_state
     \<Rightarrow> error + f64 list aligned_state" where
  "trailing_segment self stim spike_train_ids target_spike_exists w s =
     bind_err (run_until_spike self (al_voltage_t0 s) (al_threshold_t0 s) (al_AScurrents_t0 s)
                 stim (last spike_train_ids) (int (length stim)) spike_train_ids
                 target_spike_exists (dt self)) (\<lambda>r.
       record_trailing w (last spike_train_ids) (length stim) r s)"

text \<open>The checks at the end of the function.\<close>

definition final_checks :: "nat \<Rightarrow> 'a aligned_state \<Rightarrow> error + 'a aligned_state" where
  "final_checks num_spikes s =
     (if list_ex isnan (voltage s) then Inl IncompleteTraceError
      else if list_ex isnan (threshold s) then Inl IncompleteTraceError
      else if list_ex (list_ex isnan) (AScurrent_matrix s) then Inl IncompleteTraceError
      else if length (interpolatedTimeArray s) \<noteq> num_spikes
            \<or> length (interpolatedVoltageArray s) \<noteq> num_spikes
            \<or> length (gridTimeArray s) \<noteq> num_spikes
            \<or> length (gridISIFromLastTargSpike_array s) \<noteq> num_spikes
            \<or> length (interpolatedISIFromLastTargSpike_array s) \<noteq> num_spikes
            \<or> length (voltageOfModelAtGridBioSpike_array s) \<noteq> num_spikes
            \<or> length (threshOfModelAtGridBioSpike_array s) \<noteq> num_spikes
            \<or> length (v_ofModelAtInterpolatedBioSpike_array s) \<noteq> num_spikes
            \<or> length (thresh_ofModelAtInterpolatedBioSpike_array s) \<noteq> num_spikes
      then Inl SpikeCountMismatchError
      else Inr s)"

text \<open>
  The variables when there are no target spikes, after the single segment \<open>r\<close>: its
  traces and nine empty per-spike arrays.
\<close>

definition empty_target_state :: "f64 \<Rightarrow> f64 \<Rightarrow> 'a \<Rightarrow> 'b segment \<Rightarrow> 'a aligned_state" where
  "empty_target_state v0 th0 asc0 r =
     \<lparr>al_voltage_t0 = v0, al_threshold_t0 = th0, al_AScurrents_t0 = asc0, start_index = 0,
      voltage = res_voltage_out r, threshold = res_threshold_out r,
      AScurrent_matrix = res_AScurrent_matrix r,
      gridTimeArray = [], interpolatedTimeArray = [], interpolatedVoltageArray = [],
      gridISIFromLastTargSpike_array = [], interpolatedISIFromLastTargSpike_array = [],
      voltageOfModelAtGridBioSpike_array = [], threshOfModelAtGridBioSpike_array = [],
      v_ofModelAtInterpolatedBioSpike_array = [],
      thresh_ofModelAtInterpolatedBioSpike_array = []\<rparr>"

text \<open>
  The variables before the loop over the target spikes: traces of \<open>len_stim\<close> entries
  filled with NaN, a matrix of width \<open>w\<close>, and the nine per-spike arrays of
  \<open>np.empty\<close>, whose contents are unspecified; \<open>uninit\<close> stands for what the fresh
  memory holds.
\<close>

definition aligned_init :: "f64 \<Rightarrow> f64 \<Rightarrow> 'a \<Rightarrow> nat \<Rightarrow> nat \<Rightarrow> nat \<Rightarrow> f64 \<Rightarrow> 'a aligned_state" where
  "aligned_init v0 th0 asc0 len_stim w num_spikes uninit =
     \<lparr>al_voltage_t0 = v0, al_threshold_t0 = th0, al_AScurrents_t0 = asc0, start_index = 0,
      voltage = replicate len_stim NaN, threshold = replicate len_stim NaN,
      AScurrent_matrix = replicate len_stim (replicate w NaN),
      gridTimeArray = replicate num_spikes uninit,
      interpolatedTimeArray = replicate num_spikes uninit,
      interpolatedVoltageArray = replicate num_spikes uninit,
      gridISIFromLastTargSpike_array = replicate num_spikes uninit,
      interpolatedISIFromLastTargSpike_array = replicate num_spikes uninit,
      voltageOfModelAtGridBioSpike_array = replicate num_spikes uninit,
      threshOfModelAtGridBioSpike_array = replicate num_spikes uninit,
      v_ofModelAtInterpolatedBioSpike_array = replicate num_spikes uninit,
      thresh_ofModelAtInterpolatedBioSpike_array = replicate num_spikes uninit\<rparr>"

definition run_wrt_target_spike_train ::
  "neuron \<Rightarrow> f64 \<Rightarrow> f64 \<Rightarrow> f64 list \<Rightarrow> f64 list \<Rightarrow> int list \<Rightarrow> bool \<Rightarrow> f64 list \<Rightarrow> f64
     \<Rightarrow> error + f64 list aligned_state" where
  "run_wrt_target_spike_train self v0 th0 asc0 stim spike_train_ids target_spike_exists
       target_interpolated_spike_times uninit =
     (let num_spikes = length spike_train_ids;
          grid_times_before_spike = map (\<lambda>i. fmul (of_py_int (i - 1)) (dt self)) spike_train_ids
      in bind_err (np_sub target_interpolated_spike_times grid_times_before_spike) (\<lambda>deltas.
           bind_err
             (if num_spikes = 0 then
                (if target_spike_exists then Inl TargetFlagError
                 else bind_err (run_until_spike self v0 th0 asc0 stim 0 (int (length stim) - 1) []
                                  target_spike_exists (dt self)) (\<lambda>r.
                        Inr (empty_target_state v0 th0 asc0 r)))
              else
                (if \<not> target_spike_exists then Inl TargetFlagError
                 else bind_err
                        (aligned_loop self stim spike_train_ids target_spike_exists deltas
                           (length asc0) [0..<num_spikes]
                           (aligned_init v0 th0 asc0 (length stim) (length asc0) num_spikes uninit))
                        (trailing_segment self stim spike_train_ids target_spike_exists
                           (length asc0))))
             (final_checks num_spikes)))"

section \<open>Arrays shared with the caller\<close>

text \<open>
  The functions above take and return arrays as values. Python passes references: the
  stimulus and the after-spike-current vector belong to the caller, and the methods
  receive the vector and the list of spike steps by reference, so they could write them
  in place. To state what a call leaves untouched, the three run functions are written a
  second time over a store of arrays. An address is an index into the store, and an
  allocation appends a cell. The arrays a function allocates for its own results and
  hands to nobody before it returns (the traces, the per-spike arrays, the lists of
  spike times) stay values, as does the array of the target's interpolated spike times,
  which is read once.
\<close>

datatype obj = Floats "f64 list" | Ints "int list"

type_synonym store = "obj list"



definition alloc :: "obj \<Rightarrow> store \<Rightarrow> nat \<times> store" where
  "alloc x h = (length h, h @ [x])"




subsection \<open>\<open>run_until_spike\<close> over the store\<close>




subsection \<open>\<open>run\<close> over the store\<close>





subsection \<open>\<open>run_wrt_target_spike_train\<close> over the store\<close>





subsection \<open>What the methods may write\<close>

text \<open>
  From \<open>h\<close> to \<open>h'\<close> cells are only added, and every cell of \<open>h\<close> outside \<open>A\<close> keeps
  its contents.
\<close>

definition extends_except :: "nat set \<Rightarrow> store \<Rightarrow> store \<Rightarrow> bool" where
  "extends_except A h h' = (length h \<le> length h' \<and> (\<forall>r<length h. r \<notin> A \<longrightarrow> h' ! r = h ! r))"



text \<open>A small neuron for concrete runs: the voltage integrates the injected current,
  the threshold and the after-spike currents stay as they are.\<close>

definition demo_neuron :: "f64 \<Rightarrow> int \<Rightarrow> (f64 \<Rightarrow> f64) \<Rightarrow> neuron" where
  "demo_neuron d n vreset =
     \<lparr>dt = d, spike_cut_length = n,
      AScurrent_dynamics_method = (\<lambda>asc t sts. asc),
      voltage_dynamics_method = (\<lambda>v asc i. fadd v i),
      threshold_dynamics_method = (\<lambda>th v. th),
      AScurrent_reset_method = (\<lambda>asc t. asc),
      voltage_reset_method = vreset,
      threshold_reset_method = (\<lambda>th v. th)\<rparr>"

section \<open>Properties\<close>

text \<open>The equations that evaluate the model on a concrete input.\<close>

lemmas num_eval = fgt_def fge_def fsub_def of_py_int_def inf_of_sign_def invalid_value_def

lemmas np_eval = eval_nat_numeral np_get_def slice_bound_def np_slice_def fill_slice_def assign_slice_def
  set_row_def np_sub_def assign_rows_def bind_err_def upt_conv_Cons

lemmas run_eval = run_def run_init_def run_loop.simps run_body_def dynamics_def reset_def
  demo_neuron_def Let_def

lemmas segment_eval = run_until_spike_def scan_segment_def finish_segment_def seg_init_def
  seg_step_def find_crossing_def prev_index_def
  interpolate_crossing_def dynamics_def reset_def demo_neuron_def Let_def

lemmas aligned_eval = run_wrt_target_spike_train_def aligned_step_def trailing_segment_def
  record_segment_def record_trailing_def empty_target_state_def aligned_init_def final_checks_def

lemma fge_not_flt: "fge a b \<Longrightarrow> \<not> flt a b"
  unfolding fge_def by (cases a; cases b) auto

text \<open>
  C4. Whatever \<open>reset\<close> returns has its voltage below its threshold. When the
  reset methods give a voltage that is not below the threshold (in particular one that is
  greater than or equal to it), \<open>reset\<close> returns no state: it fails with an
  InvalidStateError that carries the step index, the reset voltage and the reset
  threshold.
\<close>

theorem reset_invariant:
  "(reset self v th asc t = Inr (v', th', asc') \<longrightarrow> flt v' th')
   \<and> (fge (voltage_reset_method self v)
           (threshold_reset_method self th (voltage_reset_method self v))
        \<longrightarrow> reset self v th asc t =
             Inl (InvalidStateError t (voltage_reset_method self v)
                   (threshold_reset_method self th (voltage_reset_method self v))))
   \<and> (\<not> flt (voltage_reset_method self v)
           (threshold_reset_method self th (voltage_reset_method self v))
        \<longrightarrow> (\<forall>s. reset self v th asc t \<noteq> Inr s))"
  by (auto simp: reset_def Let_def dest: fge_not_flt split: if_splits)

theorem reset_invariant_witness:
  "reset (demo_neuron (Fin 1) 0 (\<lambda>v. Fin 0)) (Fin 5) (Fin 1) [] 7 = Inr (Fin 0, Fin 1, [])
   \<and> flt (Fin 0) (Fin 1)
   \<and> fge (Fin 5) (Fin 1)
   \<and> reset (demo_neuron (Fin 1) 0 (\<lambda>v. v)) (Fin 5) (Fin 1) [] 7
       = Inl (InvalidStateError 7 (Fin 5) (Fin 1))"
proof -
  let ?N = "demo_neuron (Fin 1) 0 (\<lambda>v. Fin 0)"
  let ?M = "demo_neuron (Fin 1) 0 (\<lambda>v. v)"
  have r: "reset ?N (Fin 5) (Fin 1) [] 7 = Inr (Fin 0, Fin 1, [])"
    by (simp add: reset_def demo_neuron_def)
  have f: "flt (Fin 0) (Fin 1)"
    using reset_invariant [THEN conjunct1, THEN mp, OF r] .
  have g: "fge (voltage_reset_method ?M (Fin 5))
             (threshold_reset_method ?M (Fin 1) (voltage_reset_method ?M (Fin 5)))"
    by (simp add: demo_neuron_def fge_def)
  have h: "reset ?M (Fin 5) (Fin 1) [] 7 =
             Inl (InvalidStateError 7 (voltage_reset_method ?M (Fin 5))
                   (threshold_reset_method ?M (Fin 1) (voltage_reset_method ?M (Fin 5))))"
    using reset_invariant [THEN conjunct2, THEN conjunct1, THEN mp, OF g] .
  show ?thesis using r f g h by (simp add: demo_neuron_def)
qed


subsection \<open>The free-run loop\<close>

lemma run_body_time:
  assumes "run_body self stim s = Inr s'"
  shows "time_step s' = time_step s +
           (if crossing self stim s \<and> 0 < spike_cut_length self
            then nat (spike_cut_length self) else 1)"
  using assms
  by (auto simp: run_body_def crossing_def Let_def split: prod.splits if_splits sum.splits)

lemma run_body_advances: "run_body self stim s = Inr s' \<Longrightarrow> time_step s < time_step s'"
  by (drule run_body_time) (auto split: if_splits)


lemma length_fill_slice: "length (fill_slice xs a b v) = length xs"
  by (simp add: fill_slice_def Let_def)

lemma fill_slice_nth:
  "i < length xs \<Longrightarrow>
   fill_slice xs a b v ! i =
     (if slice_bound (length xs) a \<le> i \<and> i < slice_bound (length xs) b then v else xs ! i)"
  by (simp add: fill_slice_def Let_def)

lemma slice_bound_nat: "slice_bound len (int t) = min len t"
  by (simp add: slice_bound_def)

lemma slice_bound_nat_add: "0 < n \<Longrightarrow> slice_bound len (int t + n) = min len (t + nat n)"
  by (auto simp: slice_bound_def nat_add_distrib)

lemma set_row_Inr:
  "set_row M w i row = Inr M' \<Longrightarrow>
   length M' = length M \<and> (\<forall>j. j \<noteq> i \<longrightarrow> M' ! j = M ! j)
   \<and> (i < length M \<longrightarrow> length row = w \<longrightarrow> M' ! i = row)"
  by (auto simp: set_row_def split: if_splits)

lemma run_body_sized:
  "run_body self stim s = Inr s' \<Longrightarrow> traces_sized stim s \<Longrightarrow>
   traces_sized stim s' \<and> num_AScurrents s' = num_AScurrents s"
  by (auto simp: run_body_def traces_sized_def Let_def length_fill_slice
      split: prod.splits if_splits sum.splits dest!: set_row_Inr)

lemma run_body_frame:
  "run_body self stim s = Inr s' \<Longrightarrow> traces_sized stim s \<Longrightarrow> time_step s < length stim \<Longrightarrow>
   i < time_step s \<Longrightarrow>
   voltage_out s' ! i = voltage_out s ! i \<and> threshold_out s' ! i = threshold_out s ! i
   \<and> AScurrents_out s' ! i = AScurrents_out s ! i"
  by (auto simp: run_body_def traces_sized_def Let_def fill_slice_nth slice_bound_nat
      split: prod.splits if_splits sum.splits dest!: set_row_Inr)

lemma run_loop_frame:
  "run_loop self stim s = Some (Inr sf) \<Longrightarrow> traces_sized stim s \<Longrightarrow> i < time_step s \<Longrightarrow>
   traces_sized stim sf \<and>
   voltage_out sf ! i = voltage_out s ! i \<and> threshold_out sf ! i = threshold_out s ! i
   \<and> AScurrents_out sf ! i = AScurrents_out s ! i"
proof (induction "length stim - time_step s" arbitrary: s rule: less_induct)
  case less
  show ?case
  proof (cases "time_step s < length stim")
    case False
    with less.prems show ?thesis by (subst (asm) run_loop.simps) simp
  next
    case True
    show ?thesis
    proof (cases "run_body self stim s")
      case (Inl e)
      with True less.prems(1) show ?thesis by (subst (asm) run_loop.simps) simp
    next
      case (Inr s')
      have adv: "time_step s < time_step s'" using Inr by (rule run_body_advances)
      with True have m: "length stim - time_step s' < length stim - time_step s" by arith
      have loop: "run_loop self stim s' = Some (Inr sf)"
        using less.prems(1) True Inr by (subst (asm) run_loop.simps) simp
      have sized: "traces_sized stim s'"
        using run_body_sized [OF Inr less.prems(2)] by simp
      have "i < time_step s'" using adv less.prems(3) by simp
      from less.hyps [OF m loop sized this]
           run_body_frame [OF Inr less.prems(2) True less.prems(3)]
      show ?thesis by simp
    qed
  qed
qed

lemma run_body_spike:
  assumes body: "run_body self stim s = Inr s'"
    and spike: "crossing self stim s"
    and sized: "traces_sized stim s"
    and t: "time_step s < length stim"
  shows "(\<exists>v1 th1 asc1.
            dynamics self (voltage_t0 s) (threshold_t0 s) (AScurrents_t0 s)
              (stim ! time_step s) (int (time_step s)) (spike_time_steps s) = (v1, th1, asc1)
            \<and> reset self v1 th1 asc1 (int (time_step s))
                = Inr (voltage_t0 s', threshold_t0 s', AScurrents_t0 s'))
       \<and> (0 < spike_cut_length self \<longrightarrow>
            (\<forall>i. time_step s \<le> i \<and> i < min (length stim) (time_step s + nat (spike_cut_length self))
               \<longrightarrow> voltage_out s' ! i = NaN \<and> threshold_out s' ! i = NaN
                   \<and> AScurrents_out s' ! i = replicate (num_AScurrents s) NaN))
       \<and> (spike_cut_length self \<le> 0 \<longrightarrow>
            voltage_out s' ! time_step s = voltage_t0 s'
            \<and> threshold_out s' ! time_step s = threshold_t0 s'
            \<and> (length (AScurrents_t0 s') = num_AScurrents s
                 \<longrightarrow> AScurrents_out s' ! time_step s = AScurrents_t0 s'))"
  using assms
  by (auto simp: run_body_def crossing_def traces_sized_def Let_def fill_slice_nth
        slice_bound_nat slice_bound_nat_add
      split: prod.splits if_splits sum.splits dest!: set_row_Inr)


lemma run_init_sized: "traces_sized stim (run_init v0 th0 asc0 stim)"
  by (simp add: traces_sized_def run_init_def)



text \<open>
  C3, as the code has it. When a spike is detected at step \<open>t\<close>, the state the loop goes
  on with is the one \<open>reset\<close> returns. If the refractory length \<open>n\<close> is positive,
  the samples from \<open>t\<close> up to, but not including, \<open>min (t + n) (len stim)\<close> hold NaN in
  the three traces at the end of the run, and the loop goes on at step \<open>t + n\<close>: these are
  \<open>n\<close> samples only when at least \<open>n\<close> samples remain from \<open>t\<close> on. If \<open>n\<close> is not
  positive, sample \<open>t\<close> of the three traces holds the reset voltage, threshold and (when
  it has the width of the matrix) after-spike-current vector, and the loop goes on at
  step \<open>t + 1\<close>.
\<close>

theorem run_refractory_blanking:
  assumes sized: "traces_sized stim s"
    and t: "time_step s < length stim"
    and spike: "crossing self stim s"
    and body: "run_body self stim s = Inr s'"
    and loop: "run_loop self stim s' = Some (Inr sf)"
  shows "(\<exists>v1 th1 asc1.
            dynamics self (voltage_t0 s) (threshold_t0 s) (AScurrents_t0 s)
              (stim ! time_step s) (int (time_step s)) (spike_time_steps s) = (v1, th1, asc1)
            \<and> reset self v1 th1 asc1 (int (time_step s))
                = Inr (voltage_t0 s', threshold_t0 s', AScurrents_t0 s'))
       \<and> (0 < spike_cut_length self \<longrightarrow>
            time_step s' = time_step s + nat (spike_cut_length self)
            \<and> (\<forall>i. time_step s \<le> i
                    \<and> i < min (length stim) (time_step s + nat (spike_cut_length self))
               \<longrightarrow> voltage_out sf ! i = NaN \<and> threshold_out sf ! i = NaN
                   \<and> AScurrents_out sf ! i = replicate (num_AScurrents s) NaN))
       \<and> (spike_cut_length self \<le> 0 \<longrightarrow>
            time_step s' = time_step s + 1
            \<and> voltage_out sf ! time_step s = voltage_t0 s'
            \<and> threshold_out sf ! time_step s = threshold_t0 s'
            \<and> (length (AScurrents_t0 s') = num_AScurrents s
                 \<longrightarrow> AScurrents_out sf ! time_step s = AScurrents_t0 s'))"
proof -
  note b = run_body_spike [OF body spike sized t]
  have sized': "traces_sized stim s'"
    using run_body_sized [OF body sized] by simp
  have step: "time_step s' = time_step s +
      (if 0 < spike_cut_length self then nat (spike_cut_length self) else 1)"
    using run_body_time [OF body] spike by simp
  have keep: "voltage_out sf ! i = voltage_out s' ! i \<and> threshold_out sf ! i = threshold_out s' ! i
       \<and> AScurrents_out sf ! i = AScurrents_out s' ! i" if "i < time_step s'" for i
    using run_loop_frame [OF loop sized' that] by simp
  show ?thesis
  proof (intro conjI impI allI)
    show "\<exists>v1 th1 asc1.
            dynamics self (voltage_t0 s) (threshold_t0 s) (AScurrents_t0 s)
              (stim ! time_step s) (int (time_step s)) (spike_time_steps s) = (v1, th1, asc1)
            \<and> reset self v1 th1 asc1 (int (time_step s))
                = Inr (voltage_t0 s', threshold_t0 s', AScurrents_t0 s')"
      using b by blast
  qed (use b step keep in \<open>auto\<close>)
qed


theorem run_refractory_blanking_witness:
  "traces_sized [Fin 2, Fin 0, Fin 0, Fin 0, Fin 0]
     (run_init (Fin 0) (Fin 1) [] [Fin 2, Fin 0, Fin 0, Fin 0, Fin 0])
   \<and> crossing (demo_neuron (Fin 1) 3 (\<lambda>v. Fin 0)) [Fin 2, Fin 0, Fin 0, Fin 0, Fin 0]
        (run_init (Fin 0) (Fin 1) [] [Fin 2, Fin 0, Fin 0, Fin 0, Fin 0])
   \<and> run_loop (demo_neuron (Fin 1) 3 (\<lambda>v. Fin 0)) [Fin 2, Fin 0, Fin 0, Fin 0, Fin 0]
        \<lparr>time_step = 3, voltage_t0 = Fin 0, threshold_t0 = Fin 1, AScurrents_t0 = ([] :: f64 list),
         num_AScurrents = 0,
         voltage_out = [NaN, NaN, NaN, NaN, NaN],
         threshold_out = [NaN, NaN, NaN, NaN, NaN],
         AScurrents_out = [[], [], [], [], []],
         spike_time_steps = [0 :: int], spike_times = [Fin 0],
         interpolated_spike_times = [Fin (1 / 2)],
         interpolated_spike_voltages = [Fin 3],
         interpolated_spike_thresholds = [Fin 1]\<rparr>
       = Some (Inr \<lparr>time_step = 5, voltage_t0 = Fin 0, threshold_t0 = Fin 1,
                    AScurrents_t0 = ([] :: f64 list), num_AScurrents = 0,
                    voltage_out = [NaN, NaN, NaN, Fin 0, Fin 0],
                    threshold_out = [NaN, NaN, NaN, Fin 1, Fin 1],
                    AScurrents_out = [[], [], [], [], []],
                    spike_time_steps = [0 :: int], spike_times = [Fin 0],
                    interpolated_spike_times = [Fin (1 / 2)],
                    interpolated_spike_voltages = [Fin 3],
                    interpolated_spike_thresholds = [Fin 1]\<rparr>)
   \<and> [NaN, NaN, NaN, Fin 0, Fin 0] ! 2 = NaN
   \<and> crossing (demo_neuron (Fin 1) 0 (\<lambda>v. Fin 0)) [Fin 2, Fin 0]
        (run_init (Fin 0) (Fin 1) [] [Fin 2, Fin 0])
   \<and> run_loop (demo_neuron (Fin 1) 0 (\<lambda>v. Fin 0)) [Fin 2, Fin 0]
        \<lparr>time_step = 1, voltage_t0 = Fin 0, threshold_t0 = Fin 1, AScurrents_t0 = ([] :: f64 list),
         num_AScurrents = 0,
         voltage_out = [Fin 0, NaN], threshold_out = [Fin 1, NaN],
         AScurrents_out = [[], []],
         spike_time_steps = [0 :: int], spike_times = [Fin 0],
         interpolated_spike_times = [Fin (1 / 2)],
         interpolated_spike_voltages = [Fin 3],
         interpolated_spike_thresholds = [Fin 1]\<rparr>
       = Some (Inr \<lparr>time_step = 2, voltage_t0 = Fin 0, threshold_t0 = Fin 1,
                    AScurrents_t0 = ([] :: f64 list), num_AScurrents = 0,
                    voltage_out = [Fin 0, Fin 0], threshold_out = [Fin 1, Fin 1],
                    AScurrents_out = [[], []],
                    spike_time_steps = [0 :: int], spike_times = [Fin 0],
                    interpolated_spike_times = [Fin (1 / 2)],
                    interpolated_spike_voltages = [Fin 3],
                    interpolated_spike_thresholds = [Fin 1]\<rparr>)
   \<and> [Fin 0, Fin 0 :: f64] ! 0 = Fin 0"
proof -
  let ?N = "demo_neuron (Fin 1) 3 (\<lambda>v. Fin 0)"
  let ?stim = "[Fin 2, Fin 0, Fin 0, Fin 0, Fin 0]"
  let ?s = "run_init (Fin 0) (Fin 1) [] ?stim"
  let ?s' = "\<lparr>time_step = 3, voltage_t0 = Fin 0, threshold_t0 = Fin 1, AScurrents_t0 = ([] :: f64 list),
         num_AScurrents = 0,
         voltage_out = [NaN, NaN, NaN, NaN, NaN],
         threshold_out = [NaN, NaN, NaN, NaN, NaN],
         AScurrents_out = [[], [], [], [], []],
         spike_time_steps = [0 :: int], spike_times = [Fin 0],
         interpolated_spike_times = [Fin (1 / 2)],
         interpolated_spike_voltages = [Fin 3],
         interpolated_spike_thresholds = [Fin 1]\<rparr>"
  let ?sf = "\<lparr>time_step = 5, voltage_t0 = Fin 0, threshold_t0 = Fin 1,
                    AScurrents_t0 = ([] :: f64 list), num_AScurrents = 0,
                    voltage_out = [NaN, NaN, NaN, Fin 0, Fin 0],
                    threshold_out = [NaN, NaN, NaN, Fin 1, Fin 1],
                    AScurrents_out = [[], [], [], [], []],
                    spike_time_steps = [0 :: int], spike_times = [Fin 0],
                    interpolated_spike_times = [Fin (1 / 2)],
                    interpolated_spike_voltages = [Fin 3],
                    interpolated_spike_thresholds = [Fin 1]\<rparr>"
  let ?M = "demo_neuron (Fin 1) 0 (\<lambda>v. Fin 0)"
  let ?stim2 = "[Fin 2, Fin 0]"
  let ?u = "run_init (Fin 0) (Fin 1) [] ?stim2"
  let ?u' = "\<lparr>time_step = 1, voltage_t0 = Fin 0, threshold_t0 = Fin 1, AScurrents_t0 = ([] :: f64 list),
         num_AScurrents = 0,
         voltage_out = [Fin 0, NaN], threshold_out = [Fin 1, NaN],
         AScurrents_out = [[], []],
         spike_time_steps = [0 :: int], spike_times = [Fin 0],
         interpolated_spike_times = [Fin (1 / 2)],
         interpolated_spike_voltages = [Fin 3],
         interpolated_spike_thresholds = [Fin 1]\<rparr>"
  let ?uf = "\<lparr>time_step = 2, voltage_t0 = Fin 0, threshold_t0 = Fin 1,
                    AScurrents_t0 = ([] :: f64 list), num_AScurrents = 0,
                    voltage_out = [Fin 0, Fin 0], threshold_out = [Fin 1, Fin 1],
                    AScurrents_out = [[], []],
                    spike_time_steps = [0 :: int], spike_times = [Fin 0],
                    interpolated_spike_times = [Fin (1 / 2)],
                    interpolated_spike_voltages = [Fin 3],
                    interpolated_spike_thresholds = [Fin 1]\<rparr>"
  have a1: "traces_sized ?stim ?s" by (rule run_init_sized)
  have a2: "time_step ?s < length ?stim" by (simp add: run_init_def)
  have a3: "crossing ?N ?stim ?s"
    by (simp add: crossing_def run_eval np_eval num_eval)
  have a4: "run_body ?N ?stim ?s = Inr ?s'"
    by (simp add: run_eval np_eval num_eval)
  have a5: "run_loop ?N ?stim ?s' = Some (Inr ?sf)"
    by (simp add: run_eval np_eval num_eval)
  have b1: "traces_sized ?stim2 ?u" by (rule run_init_sized)
  have b2: "time_step ?u < length ?stim2" by (simp add: run_init_def)
  have b3: "crossing ?M ?stim2 ?u"
    by (simp add: crossing_def run_eval np_eval num_eval)
  have b4: "run_body ?M ?stim2 ?u = Inr ?u'"
    by (simp add: run_eval np_eval num_eval)
  have b5: "run_loop ?M ?stim2 ?u' = Some (Inr ?uf)"
    by (simp add: run_eval np_eval num_eval)
  have n3: "0 < spike_cut_length ?N" by (simp add: demo_neuron_def)
  have n0: "spike_cut_length ?M \<le> 0" by (simp add: demo_neuron_def)
  note A = run_refractory_blanking [OF a1 a2 a3 a4 a5, THEN conjunct2, THEN conjunct1,
      rule_format, OF n3, THEN conjunct2, rule_format, of 2]
  note B = run_refractory_blanking [OF b1 b2 b3 b4 b5, THEN conjunct2, THEN conjunct2,
      rule_format, OF n0, THEN conjunct2, THEN conjunct1]
  have c1: "voltage_out ?sf ! 2 = NaN"
    using A by (simp add: run_init_def demo_neuron_def)
  have c2: "voltage_out ?uf ! time_step ?u = voltage_t0 ?u'"
    using B .
  show ?thesis using a1 a3 a5 b3 b5 c1 c2 by (simp add: run_init_def)
qed

theorem run_refractory_blanking_counterexample:
  "run (demo_neuron (Fin 1) 3 (\<lambda>v. Fin 0)) (Fin 0) (Fin 1) [] [Fin 0, Fin 2]
     = Some (Inr \<lparr>time_step = 4, voltage_t0 = Fin 0, threshold_t0 = Fin 1,
                  AScurrents_t0 = ([] :: f64 list), num_AScurrents = 0,
                  voltage_out = [Fin 0, NaN], threshold_out = [Fin 1, NaN],
                  AScurrents_out = [[], []],
                  spike_time_steps = [1 :: int], spike_times = [Fin 1],
                  interpolated_spike_times = [Fin (3 / 2)],
                  interpolated_spike_voltages = [Fin 3],
                  interpolated_spike_thresholds = [Fin 1]\<rparr>)
   \<and> spike_cut_length (demo_neuron (Fin 1) 3 (\<lambda>v. Fin 0)) = 3
   \<and> \<not> (1 + 3 \<le> length [Fin 0, NaN])"
  by (simp add: run_eval np_eval num_eval)

subsection \<open>One segment\<close>

lemma bind_err_Inr_iff: "bind_err m f = Inr y \<longleftrightarrow> (\<exists>x. m = Inr x \<and> f x = Inr y)"
  by (cases m) (simp_all add: bind_err_def)

lemma bind_err_Inl [simp]: "bind_err (Inl e) f = Inl e"
  by (simp add: bind_err_def)

lemma bind_err_Inr [simp]: "bind_err (Inr x) f = f x"
  by (simp add: bind_err_def)


lemma set_row_cases:
  "set_row M w i row = Inr M' \<Longrightarrow>
   (M' = M[i := row] \<or> (length row = 1 \<and> M' = M[i := replicate w (hd row)]))"
  by (auto simp: set_row_def split: if_splits)

lemma seg_step_Inr:
  assumes "seg_step self stim st sts w k s = Inr s'"
  shows "seg_voltage_out s' = (seg_voltage_out s)[k := seg_voltage_t0 s]"
    and "seg_threshold_out s' = (seg_threshold_out s)[k := seg_threshold_t0 s]"
    and "set_row (seg_AScurrent_matrix s) w k (seg_AScurrents_t0 s) = Inr (seg_AScurrent_matrix s')"
    and "\<not> invalid_value (seg_voltage_t0 s)"
    and "\<not> invalid_value (seg_threshold_t0 s)"
    and "\<forall>x\<in>set (seg_AScurrents_t0 s). \<not> invalid_value x"
  using assms
  by (auto simp: seg_step_def Let_def bind_err_Inr_iff list_ex_iff invalid_value_def
      case_prod_beta split: if_splits)

lemma seg_loop_records:
  "seg_loop self stim st sts w ks s = Inr s' \<Longrightarrow> distinct ks \<Longrightarrow>
   \<forall>k\<in>set ks. k < length (seg_voltage_out s) \<and> k < length (seg_threshold_out s)
      \<and> k < length (seg_AScurrent_matrix s) \<Longrightarrow>
   length (seg_voltage_out s') = length (seg_voltage_out s)
   \<and> length (seg_threshold_out s') = length (seg_threshold_out s)
   \<and> length (seg_AScurrent_matrix s') = length (seg_AScurrent_matrix s)
   \<and> (\<forall>k\<in>set ks. \<not> invalid_value (seg_voltage_out s' ! k)
          \<and> \<not> invalid_value (seg_threshold_out s' ! k)
          \<and> (\<forall>x\<in>set (seg_AScurrent_matrix s' ! k). \<not> invalid_value x))
   \<and> (\<forall>i. i \<notin> set ks \<longrightarrow> seg_voltage_out s' ! i = seg_voltage_out s ! i
          \<and> seg_threshold_out s' ! i = seg_threshold_out s ! i
          \<and> seg_AScurrent_matrix s' ! i = seg_AScurrent_matrix s ! i)"
proof (induction ks arbitrary: s)
  case Nil
  then show ?case by simp
next
  case (Cons k ks)
  from Cons.prems(1) obtain s1 where
    step: "seg_step self stim st sts w k s = Inr s1" and
    rest: "seg_loop self stim st sts w ks s1 = Inr s'"
    by (auto split: sum.splits)
  note f = seg_step_Inr [OF step]
  have len1: "length (seg_voltage_out s1) = length (seg_voltage_out s)"
    "length (seg_threshold_out s1) = length (seg_threshold_out s)"
    "length (seg_AScurrent_matrix s1) = length (seg_AScurrent_matrix s)"
    using f(1,2) set_row_cases [OF f(3)] by auto
  have d: "distinct ks" and kn: "k \<notin> set ks" using Cons.prems(2) by auto
  have b: "\<forall>j\<in>set ks. j < length (seg_voltage_out s1) \<and> j < length (seg_threshold_out s1)
      \<and> j < length (seg_AScurrent_matrix s1)"
    using Cons.prems(3) len1 by simp
  note IH = Cons.IH [OF rest d b]
  have kb: "k < length (seg_voltage_out s)" "k < length (seg_threshold_out s)"
    "k < length (seg_AScurrent_matrix s)"
    using Cons.prems(3) by auto
  have atk: "seg_voltage_out s1 ! k = seg_voltage_t0 s" "seg_threshold_out s1 ! k = seg_threshold_t0 s"
    using f(1,2) kb by simp_all
  have rowk: "\<forall>x\<in>set (seg_AScurrent_matrix s1 ! k). \<not> invalid_value x"
  proof -
    from set_row_cases [OF f(3)] show ?thesis
    proof
      assume "seg_AScurrent_matrix s1 = (seg_AScurrent_matrix s)[k := seg_AScurrents_t0 s]"
      then show ?thesis using kb f(6) by simp
    next
      assume a: "length (seg_AScurrents_t0 s) = 1 \<and>
        seg_AScurrent_matrix s1 = (seg_AScurrent_matrix s)[k := replicate w (hd (seg_AScurrents_t0 s))]"
      then have "hd (seg_AScurrents_t0 s) \<in> set (seg_AScurrents_t0 s)"
        by (cases "seg_AScurrents_t0 s") auto
      then show ?thesis using a kb f(6) by auto
    qed
  qed
  have other: "i \<noteq> k \<Longrightarrow> seg_voltage_out s1 ! i = seg_voltage_out s ! i
      \<and> seg_threshold_out s1 ! i = seg_threshold_out s ! i
      \<and> seg_AScurrent_matrix s1 ! i = seg_AScurrent_matrix s ! i" for i
    using f(1,2) set_row_cases [OF f(3)] by auto
  show ?case
    using IH len1 kn atk rowk f(4,5) other by auto
qed

lemma seg_loop_append:
  "seg_loop self stim st sts w (xs @ ys) s =
     bind_err (seg_loop self stim st sts w xs s) (seg_loop self stim st sts w ys)"
  by (induction xs arbitrary: s) (auto split: sum.splits)

lemma seg_init_sizes:
  "length (seg_voltage_out (seg_init v0 th0 asc0 n)) = n"
  "length (seg_threshold_out (seg_init v0 th0 asc0 n)) = n"
  "length (seg_AScurrent_matrix (seg_init v0 th0 asc0 n)) = n"
  by (simp_all add: seg_init_def)

lemma seg_loop_all_valid:
  assumes "seg_loop self stim st sts w [0..<n] (seg_init v0 th0 asc0 n) = Inr s"
  shows "length (seg_voltage_out s) = n \<and> length (seg_threshold_out s) = n
     \<and> length (seg_AScurrent_matrix s) = n
     \<and> (\<forall>k<n. \<not> invalid_value (seg_voltage_out s ! k)
            \<and> \<not> invalid_value (seg_threshold_out s ! k)
            \<and> (\<forall>x\<in>set (seg_AScurrent_matrix s ! k). \<not> invalid_value x))"
  using seg_loop_records [OF assms] by (simp add: seg_init_sizes)

lemma run_until_spike_Inr:
  assumes "run_until_spike self v0 th0 asc0 stim st en sts tse delta = Inr out"
  shows "\<exists>s. seg_loop self stim st sts (length asc0) [0..<nat (en - st)]
               (seg_init v0 th0 asc0 (nat (en - st))) = Inr s
          \<and> 0 < nat (en - st)
          \<and> res_voltage_out out = seg_voltage_out s
          \<and> res_threshold_out out = seg_threshold_out s
          \<and> res_AScurrent_matrix out = seg_AScurrent_matrix s
          \<and> (\<forall>t. find_crossing (seg_voltage_out s) (seg_threshold_out s) (nat (en - st)) = Some t
                \<longrightarrow> grid_spike_time out = fmul (dt self) (of_py_int (int t))
                  \<and> interpolated_spike_time out =
                      interpolate_crossing (dt self) (int t)
                        (seg_voltage_out s ! prev_index (nat (en - st)) t)
                        (seg_threshold_out s ! prev_index (nat (en - st)) t)
                        (seg_voltage_out s ! t) (seg_threshold_out s ! t))"
  using assms
  by (auto simp: run_until_spike_def scan_segment_def finish_segment_def Let_def
        bind_err_Inr_iff case_prod_beta
      split: if_splits option.splits)



lemma seg_step_invalid:
  assumes "invalid_value (seg_voltage_t0 s) \<or> invalid_value (seg_threshold_t0 s)
           \<or> (\<exists>x\<in>set (seg_AScurrents_t0 s). invalid_value x)"
  shows "seg_step self stim st sts w k s =
           (if length (seg_AScurrents_t0 s) = w \<or> length (seg_AScurrents_t0 s) = 1
            then Inl InvalidValueError
            else Inl ValueError)"
  using assms
  by (auto simp: seg_step_def Let_def set_row_def list_ex_iff invalid_value_def)

lemma run_until_spike_valid:
  assumes "run_until_spike self v0 th0 asc0 stim st en sts tse delta = Inr out"
  shows "(\<forall>x\<in>set (res_voltage_out out). \<not> invalid_value x)
       \<and> (\<forall>x\<in>set (res_threshold_out out). \<not> invalid_value x)
       \<and> (\<forall>row\<in>set (res_AScurrent_matrix out). \<forall>x\<in>set row. \<not> invalid_value x)"
proof -
  from run_until_spike_Inr [OF assms] obtain s where
    loop: "seg_loop self stim st sts (length asc0) [0..<nat (en - st)]
             (seg_init v0 th0 asc0 (nat (en - st))) = Inr s"
    and eq: "res_voltage_out out = seg_voltage_out s" "res_threshold_out out = seg_threshold_out s"
      "res_AScurrent_matrix out = seg_AScurrent_matrix s"
    by blast
  note v = seg_loop_all_valid [OF loop]
  have a: "\<forall>x\<in>set (seg_voltage_out s). \<not> invalid_value x"
    using v by (metis in_set_conv_nth)
  have b: "\<forall>x\<in>set (seg_threshold_out s). \<not> invalid_value x"
    using v by (metis in_set_conv_nth)
  have c: "\<forall>row\<in>set (seg_AScurrent_matrix s). \<forall>x\<in>set row. \<not> invalid_value x"
    using v by (metis in_set_conv_nth)
  show ?thesis unfolding eq using a b c by simp
qed




text \<open>
  C7. Every value \<open>run_until_spike\<close> returns in its three traces is neither NaN nor
  infinite. If the state reached after \<open>k\<close> steps of the first loop has a voltage, a
  threshold or an after-spike current that is NaN or infinite, the function returns no
  output, whatever the stimulus holds or lacks at that step and after it: it fails at
  step \<open>k\<close> with the guard's error, which is the same value at every step and for every
  trace (unless recording the after-spike currents already failed on their shape).
\<close>

theorem numeric_guard:
  "(run_until_spike self v0 th0 asc0 stim st en sts tse delta = Inr out \<longrightarrow>
      (\<forall>x\<in>set (res_voltage_out out). \<not> invalid_value x)
      \<and> (\<forall>x\<in>set (res_threshold_out out). \<not> invalid_value x)
      \<and> (\<forall>row\<in>set (res_AScurrent_matrix out). \<forall>x\<in>set row. \<not> invalid_value x))
   \<and> (k < nat (en - st) \<longrightarrow>
       seg_loop self stim st sts (length asc0) [0..<k] (seg_init v0 th0 asc0 (nat (en - st))) = Inr s
       \<longrightarrow>
       invalid_value (seg_voltage_t0 s) \<or> invalid_value (seg_threshold_t0 s)
         \<or> (\<exists>x\<in>set (seg_AScurrents_t0 s). invalid_value x) \<longrightarrow>
       run_until_spike self v0 th0 asc0 stim st en sts tse delta =
         (if length (seg_AScurrents_t0 s) = length asc0 \<or> length (seg_AScurrents_t0 s) = 1
          then Inl InvalidValueError
          else Inl ValueError))"
proof -
  let ?n = "nat (en - st)"
  let ?err = "if length (seg_AScurrents_t0 s) = length asc0 \<or> length (seg_AScurrents_t0 s) = 1
          then Inl InvalidValueError
          else Inl ValueError"
  have p2: "run_until_spike self v0 th0 asc0 stim st en sts tse delta = ?err"
    if k: "k < ?n"
    and pre: "seg_loop self stim st sts (length asc0) [0..<k] (seg_init v0 th0 asc0 ?n) = Inr s"
    and bad: "invalid_value (seg_voltage_t0 s) \<or> invalid_value (seg_threshold_t0 s)
         \<or> (\<exists>x\<in>set (seg_AScurrents_t0 s). invalid_value x)"
  proof -
    have nn: "\<not> en - st < 0" using k by simp
    have "[0..<?n] = [0..<k] @ [k..<?n]"
      using k by (metis less_imp_le_nat le_add_diff_inverse upt_add_eq_append zero_le)
    then have split: "[0..<?n] = [0..<k] @ k # [Suc k..<?n]"
      using k by (simp add: upt_conv_Cons)
    note st = seg_step_invalid [OF bad, of self stim st sts "length asc0" k]
    have "seg_loop self stim st sts (length asc0) [0..<?n] (seg_init v0 th0 asc0 ?n) = ?err"
      unfolding split using pre st by (simp add: seg_loop_append split: if_splits)
    then show ?thesis
      using nn by (simp add: run_until_spike_def Let_def split: if_splits)
  qed
  show ?thesis
    using run_until_spike_valid [of self v0 th0 asc0 stim st en sts tse delta out] p2
    by blast
qed

theorem numeric_guard_witness:
  "run_until_spike (demo_neuron (Fin 1) 0 (\<lambda>v. v)) (Fin 0) (Fin 1) []
       [Fin 0, Fin 5, Fin 0] 1 3 [1] False (Fin 1)
     = Inr \<lparr>res_voltage_out = [Fin 0, Fin 5], res_threshold_out = [Fin 1, Fin 1],
            res_AScurrent_matrix = [[], []], grid_spike_time = Fin 1,
            interpolated_spike_time = Fin (1 / 5), yaySpike = True,
            res_voltage_t0 = Fin 5, res_threshold_t0 = Fin 1, res_AScurrents_t0 = ([] :: f64 list),
            res_voltage_t1 = Fin 5, res_threshold_t1 = Fin 1,
            v_ofModelAtInterpolatedBioSpike = Fin 5,
            thresh_ofModelAtInterpolatedBioSpike = Fin 1\<rparr>
   \<and> list_all (\<lambda>x. \<not> invalid_value x) [Fin 0, Fin 5]
   \<and> seg_loop (demo_neuron (Fin 1) 0 (\<lambda>v. v)) [PInf, Fin 0] 0 [] 0 [0..<1]
         (seg_init (Fin 0) (Fin 1) [] 2)
       = Inr \<lparr>seg_voltage_t0 = PInf, seg_threshold_t0 = Fin 1, seg_AScurrents_t0 = ([] :: f64 list),
              seg_voltage_out = [Fin 0, NaN], seg_threshold_out = [Fin 1, NaN],
              seg_AScurrent_matrix = [[], []]\<rparr>
   \<and> invalid_value PInf
   \<and> run_until_spike (demo_neuron (Fin 1) 0 (\<lambda>v. v)) (Fin 0) (Fin 1) []
         [PInf, Fin 0] 0 2 [] False (Fin 1)
       = Inl InvalidValueError"
proof -
  let ?N = "demo_neuron (Fin 1) 0 (\<lambda>v. v)"
  let ?R = "\<lparr>res_voltage_out = [Fin 0, Fin 5], res_threshold_out = [Fin 1, Fin 1],
            res_AScurrent_matrix = [[], []], grid_spike_time = Fin 1,
            interpolated_spike_time = Fin (1 / 5), yaySpike = True,
            res_voltage_t0 = Fin 5, res_threshold_t0 = Fin 1, res_AScurrents_t0 = ([] :: f64 list),
            res_voltage_t1 = Fin 5, res_threshold_t1 = Fin 1,
            v_ofModelAtInterpolatedBioSpike = Fin 5,
            thresh_ofModelAtInterpolatedBioSpike = Fin 1\<rparr>"
  let ?S = "\<lparr>seg_voltage_t0 = PInf, seg_threshold_t0 = Fin 1, seg_AScurrents_t0 = ([] :: f64 list),
              seg_voltage_out = [Fin 0, NaN], seg_threshold_out = [Fin 1, NaN],
              seg_AScurrent_matrix = [[], []]\<rparr>"
  have run: "run_until_spike ?N (Fin 0) (Fin 1) [] [Fin 0, Fin 5, Fin 0] 1 3 [1] False (Fin 1)
      = Inr ?R"
    by (simp add: segment_eval np_eval num_eval)
  have ok: "\<forall>x\<in>set (res_voltage_out ?R). \<not> invalid_value x"
    using numeric_guard [THEN conjunct1, rule_format, OF run] by (rule conjunct1)
  have k: "(1::nat) < nat (2 - 0)" by simp
  have pre: "seg_loop ?N [PInf, Fin 0] 0 [] (length ([] :: f64 list)) [0..<1]
      (seg_init (Fin 0) (Fin 1) [] (nat (2 - 0))) = Inr ?S"
    by (simp add: segment_eval np_eval num_eval)
  have bad: "invalid_value (seg_voltage_t0 ?S) \<or> invalid_value (seg_threshold_t0 ?S)
         \<or> (\<exists>x\<in>set (seg_AScurrents_t0 ?S). invalid_value x)"
    by (simp add: invalid_value_def)
  note G = numeric_guard [where tse = False and delta = "Fin 1", THEN conjunct2, rule_format,
      OF k pre bad]
  have fail: "run_until_spike ?N (Fin 0) (Fin 1) [] [PInf, Fin 0] 0 2 [] False (Fin 1)
       = Inl InvalidValueError"
    using G by simp
  show ?thesis using run ok pre fail by (simp add: invalid_value_def)
qed

text \<open>
  Two failing runs. The first starts with a NaN voltage and fails at step 0, with nothing
  recorded before; the second passes step 0, reads an infinite stimulus there and fails
  at step 1, with the samples of step 0 recorded. What the two raise is the same value:
  the error includes neither the step nor any sample of the traces.
\<close>

theorem numeric_guard_counterexample:
  "run_until_spike (demo_neuron (Fin 1) 0 (\<lambda>v. v)) NaN (Fin 1) []
       [Fin 0, Fin 0] 0 2 [] False (Fin 1)
     = Inl InvalidValueError
   \<and> seg_step (demo_neuron (Fin 1) 0 (\<lambda>v. v)) [Fin 0, Fin 0] 0 [] 0 0 (seg_init NaN (Fin 1) [] 2)
       = Inl InvalidValueError
   \<and> seg_step (demo_neuron (Fin 1) 0 (\<lambda>v. v)) [PInf, Fin 0] 0 [] 0 0
         (seg_init (Fin 0) (Fin 1) [] 2)
       = Inr \<lparr>seg_voltage_t0 = PInf, seg_threshold_t0 = Fin 1, seg_AScurrents_t0 = ([] :: f64 list),
              seg_voltage_out = [Fin 0, NaN], seg_threshold_out = [Fin 1, NaN],
              seg_AScurrent_matrix = [[], []]\<rparr>
   \<and> seg_step (demo_neuron (Fin 1) 0 (\<lambda>v. v)) [PInf, Fin 0] 0 [] 0 1
         \<lparr>seg_voltage_t0 = PInf, seg_threshold_t0 = Fin 1, seg_AScurrents_t0 = ([] :: f64 list),
          seg_voltage_out = [Fin 0, NaN], seg_threshold_out = [Fin 1, NaN],
          seg_AScurrent_matrix = [[], []]\<rparr>
       = Inl InvalidValueError
   \<and> run_until_spike (demo_neuron (Fin 1) 0 (\<lambda>v. v)) (Fin 0) (Fin 1) []
         [PInf, Fin 0] 0 2 [] False (Fin 1)
       = Inl InvalidValueError"
  by (simp add: segment_eval np_eval num_eval)

subsection \<open>The target-aligned loop\<close>

lemma final_checks_Inr:
  "final_checks n s = Inr out \<Longrightarrow>
     out = s
     \<and> (\<forall>x\<in>set (voltage s). \<not> isnan x) \<and> (\<forall>x\<in>set (threshold s). \<not> isnan x)
     \<and> (\<forall>row\<in>set (AScurrent_matrix s). \<forall>x\<in>set row. \<not> isnan x)
     \<and> length (interpolatedTimeArray s) = n \<and> length (interpolatedVoltageArray s) = n
     \<and> length (gridTimeArray s) = n \<and> length (gridISIFromLastTargSpike_array s) = n
     \<and> length (interpolatedISIFromLastTargSpike_array s) = n
     \<and> length (voltageOfModelAtGridBioSpike_array s) = n
     \<and> length (threshOfModelAtGridBioSpike_array s) = n
     \<and> length (v_ofModelAtInterpolatedBioSpike_array s) = n
     \<and> length (thresh_ofModelAtInterpolatedBioSpike_array s) = n"
  by (simp add: final_checks_def list_ex_iff split: if_splits)

lemma run_wrt_checked:
  "run_wrt_target_spike_train self v0 th0 asc0 stim ids tse its uninit = Inr out \<Longrightarrow>
   final_checks (length ids) out = Inr out"
  by (auto simp: run_wrt_target_spike_train_def Let_def bind_err_Inr_iff
      dest: final_checks_Inr)

text \<open>
  C6. What \<open>run_wrt_target_spike_train\<close> returns has passed the checks at its end:
  no entry of the voltage, threshold and after-spike-current traces is NaN, and every
  per-spike array has as many entries as there are target spikes. The checks fail with
  IncompleteTraceError when a NaN is left in a trace, and otherwise with
  SpikeCountMismatchError when one of the per-spike arrays has another length.
\<close>

theorem final_checks_gate:
  "(run_wrt_target_spike_train self v0 th0 asc0 stim ids tse its uninit = Inr out \<longrightarrow>
      (\<forall>x\<in>set (voltage out). \<not> isnan x) \<and> (\<forall>x\<in>set (threshold out). \<not> isnan x)
      \<and> (\<forall>row\<in>set (AScurrent_matrix out). \<forall>x\<in>set row. \<not> isnan x)
      \<and> length (gridTimeArray out) = length ids
      \<and> length (interpolatedTimeArray out) = length ids
      \<and> length (gridISIFromLastTargSpike_array out) = length ids
      \<and> length (interpolatedISIFromLastTargSpike_array out) = length ids
      \<and> length (voltageOfModelAtGridBioSpike_array out) = length ids
      \<and> length (threshOfModelAtGridBioSpike_array out) = length ids
      \<and> length (v_ofModelAtInterpolatedBioSpike_array out) = length ids
      \<and> length (thresh_ofModelAtInterpolatedBioSpike_array out) = length ids)
   \<and> ((\<exists>x\<in>set (voltage s). isnan x) \<or> (\<exists>x\<in>set (threshold s). isnan x)
        \<or> (\<exists>row\<in>set (AScurrent_matrix s). \<exists>x\<in>set row. isnan x)
       \<longrightarrow> final_checks n s = Inl IncompleteTraceError)
   \<and> (final_checks n s \<noteq> Inl IncompleteTraceError \<longrightarrow>
        length (interpolatedTimeArray s) \<noteq> n \<or> length (interpolatedVoltageArray s) \<noteq> n
        \<or> length (gridTimeArray s) \<noteq> n \<or> length (gridISIFromLastTargSpike_array s) \<noteq> n
        \<or> length (interpolatedISIFromLastTargSpike_array s) \<noteq> n
        \<or> length (voltageOfModelAtGridBioSpike_array s) \<noteq> n
        \<or> length (threshOfModelAtGridBioSpike_array s) \<noteq> n
        \<or> length (v_ofModelAtInterpolatedBioSpike_array s) \<noteq> n
        \<or> length (thresh_ofModelAtInterpolatedBioSpike_array s) \<noteq> n
       \<longrightarrow> final_checks n s = Inl SpikeCountMismatchError)"
proof -
  have p1: "final_checks (length ids) out = Inr out"
    if "run_wrt_target_spike_train self v0 th0 asc0 stim ids tse its uninit = Inr out"
    using that by (rule run_wrt_checked)
  have p2: "final_checks n s = Inl IncompleteTraceError"
    if "(\<exists>x\<in>set (voltage s). isnan x) \<or> (\<exists>x\<in>set (threshold s). isnan x)
        \<or> (\<exists>row\<in>set (AScurrent_matrix s). \<exists>x\<in>set row. isnan x)"
    using that by (auto simp: final_checks_def list_ex_iff)
  have p3: "final_checks n s = Inl SpikeCountMismatchError"
    if "final_checks n s \<noteq> Inl IncompleteTraceError"
       "length (interpolatedTimeArray s) \<noteq> n \<or> length (interpolatedVoltageArray s) \<noteq> n
        \<or> length (gridTimeArray s) \<noteq> n \<or> length (gridISIFromLastTargSpike_array s) \<noteq> n
        \<or> length (interpolatedISIFromLastTargSpike_array s) \<noteq> n
        \<or> length (voltageOfModelAtGridBioSpike_array s) \<noteq> n
        \<or> length (threshOfModelAtGridBioSpike_array s) \<noteq> n
        \<or> length (v_ofModelAtInterpolatedBioSpike_array s) \<noteq> n
        \<or> length (thresh_ofModelAtInterpolatedBioSpike_array s) \<noteq> n"
    using that by (simp add: final_checks_def split: if_splits)
  show ?thesis
    using final_checks_Inr [OF p1] p2 p3 by (intro conjI impI) simp_all
qed

theorem final_checks_gate_witness:
  "run_wrt_target_spike_train (demo_neuron (Fin 1) 0 (\<lambda>v. Fin 0)) (Fin 0) (Fin 1) []
       [Fin 0, Fin 5, Fin 0] [1] True [Fin 1] (Fin 7)
     = Inr \<lparr>al_voltage_t0 = Fin 0, al_threshold_t0 = Fin 1, al_AScurrents_t0 = ([] :: f64 list),
            start_index = 1,
            voltage = [Fin 0, Fin 0, Fin 5], threshold = [Fin 1, Fin 1, Fin 1],
            AScurrent_matrix = [[], [], []],
            gridTimeArray = [PInf], interpolatedTimeArray = [PInf],
            interpolatedVoltageArray = [Fin 7],
            gridISIFromLastTargSpike_array = [PInf],
            interpolatedISIFromLastTargSpike_array = [PInf],
            voltageOfModelAtGridBioSpike_array = [Fin 0],
            threshOfModelAtGridBioSpike_array = [Fin 1],
            v_ofModelAtInterpolatedBioSpike_array = [Fin 0],
            thresh_ofModelAtInterpolatedBioSpike_array = [Fin 1]\<rparr>
   \<and> list_all (\<lambda>x. \<not> isnan x) [Fin 0, Fin 0, Fin 5]
   \<and> length [PInf] = length [1 :: int]
   \<and> final_checks 1
        \<lparr>al_voltage_t0 = Fin 0, al_threshold_t0 = Fin 1, al_AScurrents_t0 = ([] :: f64 list),
         start_index = 1,
         voltage = [Fin 0, NaN, Fin 5], threshold = [Fin 1, Fin 1, Fin 1],
         AScurrent_matrix = [[], [], []],
         gridTimeArray = [PInf], interpolatedTimeArray = [PInf],
         interpolatedVoltageArray = [Fin 7],
         gridISIFromLastTargSpike_array = [PInf],
         interpolatedISIFromLastTargSpike_array = [PInf],
         voltageOfModelAtGridBioSpike_array = [Fin 0],
         threshOfModelAtGridBioSpike_array = [Fin 1],
         v_ofModelAtInterpolatedBioSpike_array = [Fin 0],
         thresh_ofModelAtInterpolatedBioSpike_array = [Fin 1]\<rparr>
       = Inl IncompleteTraceError
   \<and> final_checks 2
        \<lparr>al_voltage_t0 = Fin 0, al_threshold_t0 = Fin 1, al_AScurrents_t0 = ([] :: f64 list),
         start_index = 1,
         voltage = [Fin 0, Fin 0, Fin 5], threshold = [Fin 1, Fin 1, Fin 1],
         AScurrent_matrix = [[], [], []],
         gridTimeArray = [PInf], interpolatedTimeArray = [PInf],
         interpolatedVoltageArray = [Fin 7],
         gridISIFromLastTargSpike_array = [PInf],
         interpolatedISIFromLastTargSpike_array = [PInf],
         voltageOfModelAtGridBioSpike_array = [Fin 0],
         threshOfModelAtGridBioSpike_array = [Fin 1],
         v_ofModelAtInterpolatedBioSpike_array = [Fin 0],
         thresh_ofModelAtInterpolatedBioSpike_array = [Fin 1]\<rparr>
       = Inl SpikeCountMismatchError"
proof -
  let ?N = "demo_neuron (Fin 1) 0 (\<lambda>v. Fin 0)"
  let ?R = "\<lparr>al_voltage_t0 = Fin 0, al_threshold_t0 = Fin 1, al_AScurrents_t0 = ([] :: f64 list),
            start_index = 1,
            voltage = [Fin 0, Fin 0, Fin 5], threshold = [Fin 1, Fin 1, Fin 1],
            AScurrent_matrix = [[], [], []],
            gridTimeArray = [PInf], interpolatedTimeArray = [PInf],
            interpolatedVoltageArray = [Fin 7],
            gridISIFromLastTargSpike_array = [PInf],
            interpolatedISIFromLastTargSpike_array = [PInf],
            voltageOfModelAtGridBioSpike_array = [Fin 0],
            threshOfModelAtGridBioSpike_array = [Fin 1],
            v_ofModelAtInterpolatedBioSpike_array = [Fin 0],
            thresh_ofModelAtInterpolatedBioSpike_array = [Fin 1]\<rparr>"
  let ?B = "?R\<lparr>voltage := [Fin 0, NaN, Fin 5]\<rparr>"
  have run: "run_wrt_target_spike_train ?N (Fin 0) (Fin 1) [] [Fin 0, Fin 5, Fin 0] [1] True
      [Fin 1] (Fin 7) = Inr ?R"
    by (simp add: aligned_eval segment_eval np_eval num_eval)
  note G1 = final_checks_gate [THEN conjunct1, rule_format, OF run]
  have c1: "\<forall>x\<in>set (voltage ?R). \<not> isnan x" using G1 by (rule conjunct1)
  have c2: "length (gridTimeArray ?R) = length [1 :: int]"
    using G1 by (elim conjE)
  have nan: "(\<exists>x\<in>set (voltage ?B). isnan x) \<or> (\<exists>x\<in>set (threshold ?B). isnan x)
        \<or> (\<exists>row\<in>set (AScurrent_matrix ?B). \<exists>x\<in>set row. isnan x)"
    by simp
  have c3: "final_checks 1 ?B = Inl IncompleteTraceError"
    using final_checks_gate [THEN conjunct2, THEN conjunct1, rule_format, OF nan] .
  have ne: "final_checks 2 ?R \<noteq> Inl IncompleteTraceError"
    by (simp add: final_checks_def)
  have mis: "length (interpolatedTimeArray ?R) \<noteq> 2 \<or> length (interpolatedVoltageArray ?R) \<noteq> 2
        \<or> length (gridTimeArray ?R) \<noteq> 2 \<or> length (gridISIFromLastTargSpike_array ?R) \<noteq> 2
        \<or> length (interpolatedISIFromLastTargSpike_array ?R) \<noteq> 2
        \<or> length (voltageOfModelAtGridBioSpike_array ?R) \<noteq> 2
        \<or> length (threshOfModelAtGridBioSpike_array ?R) \<noteq> 2
        \<or> length (v_ofModelAtInterpolatedBioSpike_array ?R) \<noteq> 2
        \<or> length (thresh_ofModelAtInterpolatedBioSpike_array ?R) \<noteq> 2"
    by simp
  have c4: "final_checks 2 ?R = Inl SpikeCountMismatchError"
    using final_checks_gate [THEN conjunct2, THEN conjunct2, rule_format, OF ne mis] .
  show ?thesis using run c1 c2 c3 c4 by simp
qed

text \<open>
  C2 fails on the code. With the target spike train \<open>[1]\<close> on a stimulus of three
  samples, the segment after the last target spike is run with \<open>target_spike_exists\<close>
  true, the value the variable has in this branch: the reset at its end is applied, and
  here it fails, so the whole run fails. The same segment run with the flag false
  returns its traces.
\<close>

theorem trailing_segment_forces_reset:
  "run_wrt_target_spike_train (demo_neuron (Fin 1) 0 (\<lambda>v. v)) (Fin 0) (Fin 1) []
       [Fin 0, Fin 5, Fin 0] [1] True [Fin 1] (Fin 7)
     = Inl (InvalidStateError 1 (Fin 5) (Fin 1))
   \<and> run_until_spike (demo_neuron (Fin 1) 0 (\<lambda>v. v)) (Fin 0) (Fin 1) []
         [Fin 0, Fin 5, Fin 0] 0 1 [1] True (Fin 1)
       = Inr \<lparr>res_voltage_out = [Fin 0], res_threshold_out = [Fin 1],
              res_AScurrent_matrix = [[]], grid_spike_time = PInf,
              interpolated_spike_time = PInf, yaySpike = True,
              res_voltage_t0 = Fin 0, res_threshold_t0 = Fin 1, res_AScurrents_t0 = ([] :: f64 list),
              res_voltage_t1 = Fin 0, res_threshold_t1 = Fin 1,
              v_ofModelAtInterpolatedBioSpike = Fin 0,
              thresh_ofModelAtInterpolatedBioSpike = Fin 1\<rparr>
   \<and> run_until_spike (demo_neuron (Fin 1) 0 (\<lambda>v. v)) (Fin 0) (Fin 1) []
         [Fin 0, Fin 5, Fin 0] 1 3 [1] True (Fin 1)
       = Inl (InvalidStateError 1 (Fin 5) (Fin 1))
   \<and> run_until_spike (demo_neuron (Fin 1) 0 (\<lambda>v. v)) (Fin 0) (Fin 1) []
         [Fin 0, Fin 5, Fin 0] 1 3 [1] False (Fin 1)
       = Inr \<lparr>res_voltage_out = [Fin 0, Fin 5], res_threshold_out = [Fin 1, Fin 1],
              res_AScurrent_matrix = [[], []], grid_spike_time = Fin 1,
              interpolated_spike_time = Fin (1 / 5), yaySpike = True,
              res_voltage_t0 = Fin 5, res_threshold_t0 = Fin 1, res_AScurrents_t0 = ([] :: f64 list),
              res_voltage_t1 = Fin 5, res_threshold_t1 = Fin 1,
              v_ofModelAtInterpolatedBioSpike = Fin 5,
              thresh_ofModelAtInterpolatedBioSpike = Fin 1\<rparr>"
  by (simp add: aligned_eval segment_eval np_eval num_eval)

text \<open>
  C5 fails on the code. With no target spikes, the stimulus is run up to index
  \<open>len(stim) - 1\<close>: on a stimulus of three samples the three traces have two entries.
\<close>

theorem empty_target_run_drops_last_sample:
  "run_wrt_target_spike_train (demo_neuron (Fin 1) 0 (\<lambda>v. Fin 0)) (Fin 0) (Fin 1) []
       [Fin 0, Fin 0, Fin 0] [] False [] (Fin 7)
     = Inr \<lparr>al_voltage_t0 = Fin 0, al_threshold_t0 = Fin 1, al_AScurrents_t0 = ([] :: f64 list),
            start_index = 0,
            voltage = [Fin 0, Fin 0], threshold = [Fin 1, Fin 1],
            AScurrent_matrix = [[], []],
            gridTimeArray = [], interpolatedTimeArray = [],
            interpolatedVoltageArray = [],
            gridISIFromLastTargSpike_array = [],
            interpolatedISIFromLastTargSpike_array = [],
            voltageOfModelAtGridBioSpike_array = [],
            threshOfModelAtGridBioSpike_array = [],
            v_ofModelAtInterpolatedBioSpike_array = [],
            thresh_ofModelAtInterpolatedBioSpike_array = []\<rparr>
   \<and> length [Fin 0, Fin 0 :: f64] \<noteq> length [Fin 0, Fin 0, Fin 0 :: f64]"
  by (simp add: aligned_eval segment_eval np_eval num_eval)

subsection \<open>Construction\<close>

lemma GLIFNeuron_init_Inr:
  assumes "GLIFNeuron_init L El d tau R Cm asc n thi cs c1 c2 c3 c4 c5 c6 = Inr nrn"
  shows "length tau = length asc \<and> self_tau nrn = tau \<and> self_asc_vector nrn = asc"
  using assms
  by (auto simp: GLIFNeuron_init_def bind_err_Inr_iff split: if_splits)

text \<open>
  C8. Constructing a neuron fails with a ConfigurationError when \<open>tau\<close> and
  \<open>asc_vector\<close> differ in length, and then no neuron is produced: every neuron the
  constructor returns has the two vectors it was given, of one length. When the lengths
  are equal the check passes: construction then succeeds whenever the six methods can be
  configured.
\<close>

theorem tau_asc_vector_length_check:
  "(length tau \<noteq> length asc \<longrightarrow>
      GLIFNeuron_init L El d tau R Cm asc n thi cs c1 c2 c3 c4 c5 c6 = Inl ConfigurationError)
   \<and> (GLIFNeuron_init L El d tau R Cm asc n thi cs c1 c2 c3 c4 c5 c6 = Inr nrn \<longrightarrow>
        length (self_tau nrn) = length (self_asc_vector nrn)
        \<and> self_tau nrn = tau \<and> self_asc_vector nrn = asc)
   \<and> (length tau = length asc \<longrightarrow>
        configure_library_method L ''AScurrent_dynamics_method'' c1 = Inr m1 \<longrightarrow>
        configure_library_method L ''voltage_dynamics_method'' c2 = Inr m2 \<longrightarrow>
        configure_library_method L ''threshold_dynamics_method'' c3 = Inr m3 \<longrightarrow>
        configure_library_method L ''AScurrent_reset_method'' c4 = Inr m4 \<longrightarrow>
        configure_library_method L ''voltage_reset_method'' c5 = Inr m5 \<longrightarrow>
        configure_library_method L ''threshold_reset_method'' c6 = Inr m6 \<longrightarrow>
        (\<exists>nrn'. GLIFNeuron_init L El d tau R Cm asc n thi cs c1 c2 c3 c4 c5 c6 = Inr nrn'))"
proof (intro conjI impI)
  assume "length tau \<noteq> length asc"
  then show "GLIFNeuron_init L El d tau R Cm asc n thi cs c1 c2 c3 c4 c5 c6
      = Inl ConfigurationError"
    by (simp add: GLIFNeuron_init_def)
next
  assume "GLIFNeuron_init L El d tau R Cm asc n thi cs c1 c2 c3 c4 c5 c6 = Inr nrn"
  from GLIFNeuron_init_Inr [OF this]
  show "length (self_tau nrn) = length (self_asc_vector nrn)"
    and "self_tau nrn = tau" and "self_asc_vector nrn = asc"
    by simp_all
next
  assume "length tau = length asc"
    "configure_library_method L ''AScurrent_dynamics_method'' c1 = Inr m1"
    "configure_library_method L ''voltage_dynamics_method'' c2 = Inr m2"
    "configure_library_method L ''threshold_dynamics_method'' c3 = Inr m3"
    "configure_library_method L ''AScurrent_reset_method'' c4 = Inr m4"
    "configure_library_method L ''voltage_reset_method'' c5 = Inr m5"
    "configure_library_method L ''threshold_reset_method'' c6 = Inr m6"
  then show "\<exists>nrn'. GLIFNeuron_init L El d tau R Cm asc n thi cs c1 c2 c3 c4 c5 c6 = Inr nrn'"
    by (simp add: GLIFNeuron_init_def)
qed

theorem tau_asc_vector_length_check_witness:
  "GLIFNeuron_init (\<lambda>t. Some (\<lambda>n. Some ())) (Fin 0) (Fin 1) [Fin 1, Fin 2] (Fin 1) (Fin 1)
       [Fin 3] 0 (Fin 1) Map.empty
       \<lparr>cfg_name = Some ''f'', cfg_params = Some ()\<rparr> \<lparr>cfg_name = Some ''f'', cfg_params = Some ()\<rparr>
       \<lparr>cfg_name = Some ''f'', cfg_params = Some ()\<rparr> \<lparr>cfg_name = Some ''f'', cfg_params = Some ()\<rparr>
       \<lparr>cfg_name = Some ''f'', cfg_params = Some ()\<rparr> \<lparr>cfg_name = Some ''f'', cfg_params = Some ()\<rparr>
     = Inl ConfigurationError
   \<and> length [Fin 1, Fin 2 :: f64] \<noteq> length [Fin 3 :: f64]
   \<and> (\<exists>nrn. GLIFNeuron_init (\<lambda>t. Some (\<lambda>n. Some ())) (Fin 0) (Fin 1) [Fin 1, Fin 2] (Fin 1)
          (Fin 1) [Fin 3, Fin 4] 0 (Fin 1) Map.empty
          \<lparr>cfg_name = Some ''f'', cfg_params = Some ()\<rparr>
          \<lparr>cfg_name = Some ''f'', cfg_params = Some ()\<rparr>
          \<lparr>cfg_name = Some ''f'', cfg_params = Some ()\<rparr>
          \<lparr>cfg_name = Some ''f'', cfg_params = Some ()\<rparr>
          \<lparr>cfg_name = Some ''f'', cfg_params = Some ()\<rparr>
          \<lparr>cfg_name = Some ''f'', cfg_params = Some ()\<rparr>
        = Inr nrn \<and> self_tau nrn = [Fin 1, Fin 2] \<and> self_asc_vector nrn = [Fin 3, Fin 4])"
proof -
  let ?L = "\<lambda>t :: string. Some (\<lambda>n :: string. Some ())"
  let ?c = "\<lparr>cfg_name = Some ''f'', cfg_params = Some ()\<rparr>"
  let ?m = "configure_method ''f'' () ()"
  have ne: "length [Fin 1, Fin 2 :: f64] \<noteq> length [Fin 3 :: f64]" by simp
  have eq: "length [Fin 1, Fin 2 :: f64] = length [Fin 3, Fin 4 :: f64]" by simp
  have cfg: "configure_library_method ?L t ?c = Inr ?m" for t
    by (simp add: configure_library_method_def)
  note T = tau_asc_vector_length_check [where L = ?L and El = "Fin 0" and d = "Fin 1"
      and R = "Fin 1" and Cm = "Fin 1" and n = 0 and thi = "Fin 1" and cs = Map.empty
      and ?c1.0 = ?c and ?c2.0 = ?c and ?c3.0 = ?c and ?c4.0 = ?c and ?c5.0 = ?c and ?c6.0 = ?c]
  have a: "GLIFNeuron_init ?L (Fin 0) (Fin 1) [Fin 1, Fin 2] (Fin 1) (Fin 1) [Fin 3] 0 (Fin 1)
      Map.empty ?c ?c ?c ?c ?c ?c = Inl ConfigurationError"
    using T [THEN conjunct1, rule_format, OF ne] .
  from T [THEN conjunct2, THEN conjunct2, rule_format, OF eq cfg cfg cfg cfg cfg cfg]
  obtain nrn where r: "GLIFNeuron_init ?L (Fin 0) (Fin 1) [Fin 1, Fin 2] (Fin 1) (Fin 1)
      [Fin 3, Fin 4] 0 (Fin 1) Map.empty ?c ?c ?c ?c ?c ?c = Inr nrn"
    by blast
  from T [THEN conjunct2, THEN conjunct1, rule_format, OF r]
  have "self_tau nrn = [Fin 1, Fin 2] \<and> self_asc_vector nrn = [Fin 3, Fin 4]" by simp
  with r have "\<exists>nrn. GLIFNeuron_init ?L (Fin 0) (Fin 1) [Fin 1, Fin 2] (Fin 1) (Fin 1)
      [Fin 3, Fin 4] 0 (Fin 1) Map.empty ?c ?c ?c ?c ?c ?c = Inr nrn
      \<and> self_tau nrn = [Fin 1, Fin 2] \<and> self_asc_vector nrn = [Fin 3, Fin 4]"
    by blast
  then show ?thesis using a ne by blast
qed

subsection \<open>Arrays shared with the caller\<close>




lemma extends_except_alloc: "extends_except A h (snd (alloc x h))"
  by (simp add: extends_except_def alloc_def nth_append)


lemma extends_except_length: "extends_except A h h' \<Longrightarrow> length h \<le> length h'"
  by (simp add: extends_except_def)





















end
